theory Spec2Isabelle
  imports Main "HOL-Library.Sublist" "HOL-Library.Multiset"
begin

section \<open>JavaScript values, strings and property lookup\<close>

text \<open>
  ConfigKit's derivation engine is plain JavaScript over an \<^emph>\<open>answers\<close> object. The
  embedding keeps the dynamic typing visible: an answer is a \<open>jsval\<close>, a missing key
  reads as \<open>JUndefined\<close>, and a \<open>TypeError\<close> raised by the engine (calling a method that
  the receiver does not have, or converting to a string an object that cannot be
  converted) is the \<open>Inl\<close> branch of a sum.

  The universe of answer values is the JSON-like one: \<open>undefined\<close>, \<open>null\<close>, booleans,
  integer-valued numbers (of magnitude below \<open>10^21\<close>, which JavaScript prints in plain
  decimal), strings, arrays of such values, and plain objects (prototype
  \<open>Object.prototype\<close>) whose own properties hold such values. Functions, symbols,
  fractional numbers, accessors and sparse arrays are outside the embedding. A JavaScript
  string is represented by the bytes of its UTF-8 encoding, so the two non-ASCII
  characters of the string tables (the em dash and the right arrow) are three bytes each.
\<close>

datatype error = TypeError

datatype jsval =
    JUndefined
  | JNull
  | JBool bool
  | JNum int
  | JStr string
  | JArr "jsval list"
  | JObj "(string \<times> jsval) list"

type_synonym answers = "string \<rightharpoonup> jsval"

text \<open>Sequencing of computations that may raise.\<close>

definition bindE :: "error + 'a \<Rightarrow> ('a \<Rightarrow> error + 'b) \<Rightarrow> error + 'b" where
  "bindE m f = (case m of Inl e \<Rightarrow> Inl e | Inr x \<Rightarrow> f x)"

definition getProp :: "answers \<Rightarrow> string \<Rightarrow> jsval" where
  "getProp a k = (case a k of None \<Rightarrow> JUndefined | Some v \<Rightarrow> v)"

fun truthy :: "jsval \<Rightarrow> bool" where
  "truthy JUndefined = False"
| "truthy JNull = False"
| "truthy (JBool b) = b"
| "truthy (JNum n) = (n \<noteq> 0)"
| "truthy (JStr s) = (s \<noteq> [])"
| "truthy (JArr xs) = True"
| "truthy (JObj ps) = True"

definition emDash :: string where
  "emDash = [CHR 0xE2, CHR 0x80, CHR 0x94]"

definition rightArrow :: string where
  "rightArrow = [CHR 0xE2, CHR 0x86, CHR 0x92]"

definition nl :: string where
  "nl = [CHR 0x0A]"

text \<open>\<open>Array.prototype.join\<close> on an array of strings.\<close>

fun join :: "string \<Rightarrow> string list \<Rightarrow> string" where
  "join sep [] = []"
| "join sep [x] = x"
| "join sep (x # y # ys) = x @ sep @ join sep (y # ys)"

text \<open>Decimal rendering of numbers, as template literals and property keys need it.\<close>

fun natToString :: "nat \<Rightarrow> string" where
  "natToString n =
     (if n < 10 then [''0123456789'' ! n]
      else natToString (n div 10) @ [''0123456789'' ! (n mod 10)])"

declare natToString.simps [simp del]

definition intToString :: "int \<Rightarrow> string" where
  "intToString i = (if i < 0 then ''-'' @ natToString (nat (- i)) else natToString (nat i))"

text \<open>
  \<open>ToString\<close>, as a template literal applies it. An array is joined with commas, its
  \<open>undefined\<close> and \<open>null\<close> elements giving the empty string. A plain object is converted
  by the inherited \<open>Object.prototype.toString\<close>; an own property \<open>toString\<close> shadows it
  with a value that cannot be called, the inherited \<open>valueOf\<close> returns the object itself
  (and an own \<open>valueOf\<close> cannot be called either), so the conversion raises.
\<close>

fun toStringJS :: "jsval \<Rightarrow> error + string"
  and elementStrings :: "jsval list \<Rightarrow> error + string list" where
  "toStringJS JUndefined = Inr ''undefined''"
| "toStringJS JNull = Inr ''null''"
| "toStringJS (JBool b) = Inr (if b then ''true'' else ''false'')"
| "toStringJS (JNum n) = Inr (intToString n)"
| "toStringJS (JStr s) = Inr s"
| "toStringJS (JArr xs) =
     (case elementStrings xs of Inl e \<Rightarrow> Inl e | Inr ss \<Rightarrow> Inr (join '','' ss))"
| "toStringJS (JObj ps) =
     (if ''toString'' \<in> set (map fst ps) then Inl TypeError else Inr ''[object Object]'')"
| "elementStrings [] = Inr []"
| "elementStrings (JUndefined # xs) =
     (case elementStrings xs of Inl e \<Rightarrow> Inl e | Inr ss \<Rightarrow> Inr ([] # ss))"
| "elementStrings (JNull # xs) =
     (case elementStrings xs of Inl e \<Rightarrow> Inl e | Inr ss \<Rightarrow> Inr ([] # ss))"
| "elementStrings (x # xs) =
     (case toStringJS x of
        Inl e \<Rightarrow> Inl e
      | Inr s \<Rightarrow> (case elementStrings xs of Inl e \<Rightarrow> Inl e | Inr ss \<Rightarrow> Inr (s # ss)))"

text \<open>
  \<open>ToPropertyKey\<close>: the string under which a value is looked up when it is used as
  \<open>TABLE[value]\<close>; for the values of the embedding it is \<open>ToString\<close>, so
  \<open>['web-app']\<close> finds the key \<open>web-app\<close>.
\<close>

definition toPropertyKey :: "jsval \<Rightarrow> error + string" where
  "toPropertyKey v = toStringJS v"

text \<open>
  Every lookup table of the engine is an object literal, so a lookup that misses the
  table's own keys continues in \<open>Object.prototype\<close>. These are its property names; all
  of them hold functions, except \<open>__proto__\<close>, which yields \<open>Object.prototype\<close> itself.
\<close>

definition objectPrototypeNames :: "string list" where
  "objectPrototypeNames =
     [''constructor'', ''hasOwnProperty'', ''isPrototypeOf'', ''propertyIsEnumerable'',
      ''toLocaleString'', ''toString'', ''valueOf'', ''__proto__'',
      ''__defineGetter__'', ''__defineSetter__'', ''__lookupGetter__'', ''__lookupSetter__'']"

datatype 'a jsprop = Own 'a | Inherited string

text \<open>
  \<open>TABLE[key]\<close>; \<open>None\<close> is \<open>undefined\<close>. The lookup raises when the key cannot be
  converted.
\<close>

definition lookupProp :: "(string \<times> 'a) list \<Rightarrow> jsval \<Rightarrow> error + 'a jsprop option" where
  "lookupProp tbl key =
     bindE (toPropertyKey key) (\<lambda>k.
       Inr (case map_of tbl k of
              Some v \<Rightarrow> Some (Own v)
            | None \<Rightarrow> if k \<in> set objectPrototypeNames then Some (Inherited k) else None))"

text \<open>The nullish coalescing operator \<open>x ?? d\<close>.\<close>

definition orElse :: "'a option \<Rightarrow> 'a \<Rightarrow> 'a" where
  "orElse x d = (case x of None \<Rightarrow> d | Some v \<Rightarrow> v)"

text \<open>
  Calling an array method (\<open>forEach\<close>, \<open>map\<close>, \<open>includes\<close>, \<open>some\<close>) on a looked-up value:
  an inherited function or \<open>Object.prototype\<close> has no such method, and the call raises.
\<close>

definition asArray :: "'a jsprop \<Rightarrow> error + 'a" where
  "asArray v = (case v of Own xs \<Rightarrow> Inr xs | Inherited k \<Rightarrow> Inl TypeError)"

text \<open>\<open>(TABLE[key] ?? []).forEach(...)\<close>: the array that is iterated.\<close>

definition lookupList :: "(string \<times> 'a list) list \<Rightarrow> jsval \<Rightarrow> error + 'a list" where
  "lookupList tbl key = bindE (lookupProp tbl key) (\<lambda>v. asArray (orElse v (Own [])))"

text \<open>
  The text of a looked-up value inside a template literal. An inherited function prints
  with its own name, which is the property name except for \<open>constructor\<close> (the function
  \<open>Object\<close>); the layout of the text is the engine's (V8's is given).
\<close>

definition textOf :: "string jsprop \<Rightarrow> string" where
  "textOf v =
     (case v of
        Own s \<Rightarrow> s
      | Inherited k \<Rightarrow>
          if k = ''__proto__'' then ''[object Object]''
          else ''function '' @ (if k = ''constructor'' then ''Object'' else k)
               @ ''() { [native code] }'')"

section \<open>Guardrail engine (guardrailEngine.js)\<close>

definition TIER_INSTRUCTIONS :: "string list list" where
  "TIER_INSTRUCTIONS =
   [[''Never hardcode credentials, API keys, tokens, or secrets anywhere in source code'',
     ''Store all configuration and secrets in environment variables; document required vars in .env.example'',
     ''Implement proper error handling on every async operation '' @ emDash @ '' no silent failures or swallowed exceptions'',
     ''Never log sensitive data (tokens, passwords, personal info) to the console or log files''],
    [''Validate and sanitise all user-supplied input before processing or persisting it'',
     ''Never store sensitive data in localStorage, sessionStorage, or client-side cookies without encryption'',
     ''Enforce HTTPS for all network communication; reject plain HTTP in production'',
     ''Apply basic rate limiting to all public-facing API endpoints''],
    [''Use httpOnly, Secure, SameSite cookies for session tokens '' @ emDash @ '' never expose tokens to JavaScript'',
     ''Implement token rotation and short expiry windows; handle refresh token revocation'',
     ''Define an explicit CORS policy; never use wildcard (*) origins in production'',
     ''Apply parameterised queries or an ORM throughout '' @ emDash @ '' never concatenate user input into SQL'',
     ''Escape all output rendered to HTML to prevent XSS; use a Content Security Policy header''],
    [''Encrypt sensitive fields at rest (use AES-256 or equivalent); never store plaintext PII or payment data'',
     ''Implement audit logging for all data access and mutations to sensitive records'',
     ''Apply principle of least privilege to all database roles and service accounts'',
     ''Never log, cache, or transmit raw PII, payment card data, or health records'',
     ''Enforce strict secret rotation practices with documented rotation schedules'']]"

definition TIER_LABELS :: "string list" where
  "TIER_LABELS = [''BASELINE'', ''ELEVATED'', ''HARDENED'', ''MAXIMUM'']"

definition TIER_COLORS :: "string list" where
  "TIER_COLORS = [''comment'', ''yellow'', ''orange'', ''red'']"

definition securityKeys :: "string list" where
  "securityKeys = [''hasAuth'', ''storesData'', ''hasPayments'', ''hasSensitiveData'']"

definition countSecurityYes :: "answers \<Rightarrow> nat" where
  "countSecurityYes a = length (filter (\<lambda>key. getProp a key = JStr ''yes'') securityKeys)"

definition determineTier :: "answers \<Rightarrow> nat" where
  "determineTier a =
     (let yesCount = countSecurityYes a in
      if getProp a ''hasPayments'' = JStr ''yes'' \<or> getProp a ''hasSensitiveData'' = JStr ''yes'' then 3
      else if yesCount \<ge> 2 then 2
      else if yesCount \<ge> 1 then 1
      else 0)"

record guardrails =
  tier :: nat
  label :: string
  color :: string
  instructions :: "string list"
  byTier :: "string list list"
  yesCount :: nat

text \<open>
  \<open>slice(0, tier + 1)\<close> is \<open>take\<close>, and \<open>flat()\<close> on an array of arrays of strings is
  \<open>concat\<close>. The tier never exceeds 3, so the two label tables are read in range.
\<close>

definition determineGuardrails :: "answers \<Rightarrow> guardrails" where
  "determineGuardrails a =
     (let t = determineTier a;
          yc = countSecurityYes a;
          ins = concat (take (t + 1) TIER_INSTRUCTIONS)
      in \<lparr> tier = t,
           label = TIER_LABELS ! t,
           color = TIER_COLORS ! t,
           instructions = ins,
           byTier = take (t + 1) TIER_INSTRUCTIONS,
           yesCount = yc \<rparr>)"

section \<open>Role builder (roleBuilder.js)\<close>

definition BASE_ROLES :: "(string \<times> string) list" where
  \<open>BASE_ROLES =
     [(''web-app'', ''Senior Full-Stack Engineer''),
      (''cli-tool'', ''Senior Backend Engineer and Systems Developer''),
      (''api-backend'', ''Senior Backend Engineer and API Architect''),
      (''data-pipeline'', ''Senior Data Engineer and Pipeline Architect''),
      (''discord-slack-bot'', ''Senior Backend Engineer and Bot Developer''),
      (''mobile-app'', ''Senior Mobile Engineer''),
      (''other'', ''Senior Software Engineer'')]\<close>

definition STACK_LABELS :: "(string \<times> string) list" where
  \<open>STACK_LABELS =
     [(''react'', ''React''),
      (''nextjs'', ''Next.js''),
      (''vue'', ''Vue''),
      (''svelte'', ''Svelte''),
      (''nodejs'', ''Node.js''),
      (''python'', ''Python''),
      (''go'', ''Go''),
      (''java'', ''Java''),
      (''postgres'', ''PostgreSQL''),
      (''mysql'', ''MySQL''),
      (''mongodb'', ''MongoDB''),
      (''redis'', ''Redis''),
      (''docker'', ''Docker''),
      (''stripe'', ''Stripe''),
      (''supabase'', ''Supabase''),
      (''prisma'', ''Prisma ORM'')]\<close>

definition RECOMMENDED_STACKS :: "(string \<times> string list) list" where
  \<open>RECOMMENDED_STACKS =
     [(''web-app'', [''react'', ''nextjs'', ''postgres'', ''prisma'']),
      (''cli-tool'', [''nodejs'', ''python'']),
      (''api-backend'', [''nodejs'', ''postgres'']),
      (''data-pipeline'', [''python'', ''postgres'']),
      (''discord-slack-bot'', [''nodejs'']),
      (''mobile-app'', [''react'']),
      (''other'', [''nodejs''])]\<close>

definition buildSecuritySpecs :: "answers \<Rightarrow> string list" where
  "buildSecuritySpecs a =
     (if getProp a ''hasAuth'' = JStr ''yes''
        then [''secure authentication and session management''] else [])
     @ (if getProp a ''hasPayments'' = JStr ''yes''
        then [''PCI-DSS-aware payment integration patterns''] else [])
     @ (if getProp a ''hasSensitiveData'' = JStr ''yes''
        then [''sensitive data handling and privacy-first architecture''] else [])"

text \<open>
  \<open>resolveStack\<close> does not check what it returns: in \<open>recommend\<close> mode it is whatever the
  lookup in \<open>RECOMMENDED_STACKS\<close> yields, replaced by the default only when it is
  \<open>undefined\<close> or \<open>null\<close>; otherwise it is \<open>stackTech\<close> when that is an array, whatever its
  elements are. The curated lists are arrays of strings.
\<close>

definition resolveStack :: "answers \<Rightarrow> error + jsval list jsprop" where
  "resolveStack a =
     (if getProp a ''stackApproach'' = JStr ''recommend''
      then bindE (lookupProp RECOMMENDED_STACKS (getProp a ''projectType'')) (\<lambda>v.
             Inr (orElse (map_option (map_jsprop (map JStr)) v) (Own [JStr ''nodejs''])))
      else Inr (case getProp a ''stackTech'' of JArr xs \<Rightarrow> Own xs | _ \<Rightarrow> Own []))"

fun joinNatural :: "string list \<Rightarrow> string" where
  "joinNatural [] = ''''"
| "joinNatural [x] = x"
| "joinNatural [x, y] = x @ '' and '' @ y"
| "joinNatural xs = join '', '' (butlast xs) @ '', and '' @ last xs"

text \<open>
  \<open>String.prototype.trim\<close> strips the white space and line terminators of ECMAScript
  from both ends: the six ASCII ones and, in UTF-8, U+00A0, U+1680, U+2000 to U+200A,
  U+2028, U+2029, U+202F, U+205F, U+3000 and U+FEFF.
\<close>

definition whiteSpaces :: "string list" where
  "whiteSpaces =
     [[CHR 0x09], [CHR 0x0A], [CHR 0x0B], [CHR 0x0C], [CHR 0x0D], [CHR 0x20],
      [CHR 0xC2, CHR 0xA0], [CHR 0xE1, CHR 0x9A, CHR 0x80],
      [CHR 0xE2, CHR 0x80, CHR 0x80], [CHR 0xE2, CHR 0x80, CHR 0x81],
      [CHR 0xE2, CHR 0x80, CHR 0x82], [CHR 0xE2, CHR 0x80, CHR 0x83],
      [CHR 0xE2, CHR 0x80, CHR 0x84], [CHR 0xE2, CHR 0x80, CHR 0x85],
      [CHR 0xE2, CHR 0x80, CHR 0x86], [CHR 0xE2, CHR 0x80, CHR 0x87],
      [CHR 0xE2, CHR 0x80, CHR 0x88], [CHR 0xE2, CHR 0x80, CHR 0x89],
      [CHR 0xE2, CHR 0x80, CHR 0x8A], [CHR 0xE2, CHR 0x80, CHR 0xA8],
      [CHR 0xE2, CHR 0x80, CHR 0xA9], [CHR 0xE2, CHR 0x80, CHR 0xAF],
      [CHR 0xE2, CHR 0x81, CHR 0x9F], [CHR 0xE3, CHR 0x80, CHR 0x80],
      [CHR 0xEF, CHR 0xBB, CHR 0xBF]]"

text \<open>The number of bytes of the white-space character at the start, or at the end.\<close>

definition spaceAtStart :: "string \<Rightarrow> nat" where
  "spaceAtStart s = (case find (\<lambda>w. prefix w s) whiteSpaces of None \<Rightarrow> 0 | Some w \<Rightarrow> length w)"

definition spaceAtEnd :: "string \<Rightarrow> nat" where
  "spaceAtEnd s = (case find (\<lambda>w. suffix w s) whiteSpaces of None \<Rightarrow> 0 | Some w \<Rightarrow> length w)"

text \<open>
  The two stripping loops, with the number of rounds bounded: every round removes at
  least one byte, so \<open>length s\<close> rounds are enough to reach a character that is not
  white space.
\<close>

fun trimStart :: "nat \<Rightarrow> string \<Rightarrow> string" where
  "trimStart 0 s = s"
| "trimStart (Suc n) s =
     (if spaceAtStart s = 0 then s else trimStart n (drop (spaceAtStart s) s))"

fun trimEnd :: "nat \<Rightarrow> string \<Rightarrow> string" where
  "trimEnd 0 s = s"
| "trimEnd (Suc n) s =
     (if spaceAtEnd s = 0 then s else trimEnd n (take (length s - spaceAtEnd s) s))"

definition trim :: "string \<Rightarrow> string" where
  "trim s = (let t = trimStart (length s) s in trimEnd (length t) t)"

text \<open>
  \<open>toLowerCase\<close>, as far as the search for ASCII keywords can see it: the letters
  \<open>A\<close>-\<open>Z\<close> are lowered, U+212A (Kelvin sign) becomes \<open>k\<close>, and U+0130 becomes \<open>i\<close>
  followed by U+0307. These are the only characters whose lower case has an ASCII
  character in it; the other non-ASCII letters, whose lower case is non-ASCII again, are
  left as they are.
\<close>

definition lowerChar :: "char \<Rightarrow> char" where
  "lowerChar c =
     (case map_of (zip ''ABCDEFGHIJKLMNOPQRSTUVWXYZ'' ''abcdefghijklmnopqrstuvwxyz'') c of
        Some l \<Rightarrow> l
      | None \<Rightarrow> c)"

fun toLowerCase :: "string \<Rightarrow> string" where
  "toLowerCase [] = []"
| "toLowerCase (c # cs) =
     (if c = CHR 0xE2 \<and> take 2 cs = [CHR 0x84, CHR 0xAA]
      then CHR ''k'' # toLowerCase (drop 2 cs)
      else if c = CHR 0xC4 \<and> take 1 cs = [CHR 0xB0]
      then CHR ''i'' # CHR 0xCC # CHR 0x87 # toLowerCase (drop 1 cs)
      else lowerChar c # toLowerCase cs)"

text \<open>
  \<open>stack.map(t => STACK_LABELS[t]).filter(Boolean)\<close>: an id without a label is dropped,
  an inherited property is kept (it is truthy), and an id that cannot be converted to a
  property key raises.
\<close>

definition truthyLabel :: "string jsprop \<Rightarrow> bool" where
  "truthyLabel v = (case v of Own s \<Rightarrow> s \<noteq> [] | Inherited k \<Rightarrow> True)"

fun stackLabels :: "jsval list \<Rightarrow> error + string jsprop list" where
  "stackLabels [] = Inr []"
| "stackLabels (t # ts) =
     (case lookupProp STACK_LABELS t of
        Inl e \<Rightarrow> Inl e
      | Inr v \<Rightarrow>
          (case stackLabels ts of
             Inl e \<Rightarrow> Inl e
           | Inr labels \<Rightarrow>
               Inr ((case v of None \<Rightarrow> [] | Some l \<Rightarrow> if truthyLabel l then [l] else [])
                    @ labels)))"

text \<open>
  \<open>projectDescription?.trim()\<close> is \<open>undefined\<close> for a missing or \<open>null\<close> description
  and the trimmed text for a string; any other value has no \<open>trim\<close> method, and the
  call raises. \<open>joinNatural\<close> is only used inside template literals, so its arguments
  are rendered to text first.
\<close>

definition buildRole :: "answers \<Rightarrow> error + string" where
  "buildRole a =
     bindE (lookupProp BASE_ROLES (getProp a ''projectType'')) (\<lambda>b.
     let baseRole = orElse b (Own ''Senior Software Engineer'') in
     bindE (resolveStack a) (\<lambda>resolved.
     bindE (asArray resolved) (\<lambda>stack.
     bindE (stackLabels stack) (\<lambda>stackSpecs.
     let secSpecs = buildSecuritySpecs a;
         parts = [''You are a '' @ textOf baseRole]
           @ (if length stackSpecs > 0
              then [''specializing in '' @ joinNatural (map textOf stackSpecs)] else [])
           @ (if length secSpecs > 0
              then [''with deep expertise in '' @ joinNatural secSpecs] else []);
         role = join '', '' parts @ ''.''
     in case getProp a ''projectDescription'' of
          JUndefined \<Rightarrow> Inr role
        | JNull \<Rightarrow> Inr role
        | JStr d \<Rightarrow>
            Inr (if trim d \<noteq> [] then role @ nl @ nl @ ''**Project:** '' @ trim d else role)
        | _ \<Rightarrow> Inl TypeError))))"

record roleComponents =
  baseRole :: "string jsprop"
  stackSpecs :: "string jsprop list"
  secSpecs :: "string list"
  full :: string

definition buildRoleComponents :: "answers \<Rightarrow> error + roleComponents" where
  "buildRoleComponents a =
     bindE (lookupProp BASE_ROLES (getProp a ''projectType'')) (\<lambda>b.
     bindE (resolveStack a) (\<lambda>resolved.
     bindE (asArray resolved) (\<lambda>stack.
     bindE (stackLabels stack) (\<lambda>specs.
     bindE (buildRole a) (\<lambda>r.
     Inr \<lparr> baseRole = orElse b (Own ''Senior Software Engineer''), stackSpecs = specs,
           secSpecs = buildSecuritySpecs a, full = r \<rparr>)))))"

section \<open>Skill selector (skillSelector.js)\<close>

datatype track = Core | Stack | Guardrail | Deployment

definition PROJECT_TYPE_SKILLS :: "(string \<times> string list) list" where
  \<open>PROJECT_TYPE_SKILLS =
     [(''web-app'', [''building-web-apps'', ''structuring-components'', ''integrating-apis'']),
      (''cli-tool'', [''building-cli-tools'', ''handling-io-streams'', ''error-handling-patterns'']),
      (''api-backend'', [''designing-rest-apis'', ''request-validation'', ''api-error-handling'']),
      (''data-pipeline'', [''building-data-pipelines'', ''transformation-logic'', ''idempotency-patterns'']),
      (''discord-slack-bot'', [''building-cli-tools'', ''handling-io-streams'', ''error-handling-patterns'']),
      (''mobile-app'', [''building-web-apps'', ''structuring-components'', ''integrating-apis'']),
      (''other'', [''error-handling-patterns'', ''integrating-apis''])]\<close>

definition STACK_SKILLS :: "(string \<times> string list) list" where
  \<open>STACK_SKILLS =
     [(''react'', [''managing-react-state'', ''structuring-react-components'']),
      (''nextjs'', [''nextjs-routing-patterns'', ''ssr-and-data-fetching'']),
      (''vue'', [''managing-vue-state'', ''structuring-vue-components'']),
      (''svelte'', [''svelte-component-patterns'']),
      (''nodejs'', [''nodejs-async-patterns'', ''express-middleware'']),
      (''python'', [''python-project-structure'', ''dependency-management'']),
      (''go'', [''go-project-structure'', ''go-concurrency-patterns'']),
      (''java'', [''java-project-structure'', ''spring-patterns'']),
      (''postgres'', [''database-query-patterns'', ''migration-management'']),
      (''mysql'', [''database-query-patterns'', ''migration-management'']),
      (''mongodb'', [''mongodb-schema-patterns'', ''aggregation-pipeline'']),
      (''redis'', [''redis-caching-patterns'']),
      (''docker'', [''containerisation-patterns'']),
      (''stripe'', [''stripe-integration-patterns'']),
      (''supabase'', [''supabase-patterns'']),
      (''prisma'', [''prisma-schema-patterns''])]\<close>

definition DEPLOYMENT_SKILLS :: "(string \<times> string list) list" where
  \<open>DEPLOYMENT_SKILLS =
     [(''vercel'', [''deploying-to-vercel'']),
      (''aws'', [''deploying-to-aws'']),
      (''gcp'', [''deploying-to-gcp'']),
      (''local-only'', []),
      (''not-sure'', [])]\<close>

text \<open>Each metadata entry is \<open>(label, track, accent)\<close>.\<close>

definition SKILL_METADATA :: "(string \<times> (string \<times> track \<times> string)) list" where
  \<open>SKILL_METADATA =
     [(''building-web-apps'', ''Building Web Apps'', Core, ''cyan''),
      (''structuring-components'', ''Structuring Components'', Core, ''cyan''),
      (''integrating-apis'', ''Integrating APIs'', Core, ''cyan''),
      (''building-cli-tools'', ''Building CLI Tools'', Core, ''green''),
      (''handling-io-streams'', ''Handling IO Streams'', Core, ''green''),
      (''error-handling-patterns'', ''Error Handling'', Core, ''green''),
      (''designing-rest-apis'', ''Designing REST APIs'', Core, ''purple''),
      (''request-validation'', ''Request Validation'', Core, ''purple''),
      (''api-error-handling'', ''API Error Handling'', Core, ''purple''),
      (''building-data-pipelines'', ''Building Data Pipelines'', Core, ''yellow''),
      (''transformation-logic'', ''Transformation Logic'', Core, ''yellow''),
      (''idempotency-patterns'', ''Idempotency Patterns'', Core, ''yellow''),
      (''managing-react-state'', ''React State'', Stack, ''cyan''),
      (''structuring-react-components'', ''React Components'', Stack, ''cyan''),
      (''nextjs-routing-patterns'', ''Next.js Routing'', Stack, ''fg''),
      (''ssr-and-data-fetching'', ''SSR & Data Fetching'', Stack, ''fg''),
      (''managing-vue-state'', ''Vue State'', Stack, ''green''),
      (''structuring-vue-components'', ''Vue Components'', Stack, ''green''),
      (''svelte-component-patterns'', ''Svelte Patterns'', Stack, ''orange''),
      (''nodejs-async-patterns'', ''Node.js Async'', Stack, ''green''),
      (''express-middleware'', ''Express Middleware'', Stack, ''green''),
      (''python-project-structure'', ''Python Structure'', Stack, ''yellow''),
      (''dependency-management'', ''Dependency Management'', Stack, ''yellow''),
      (''go-project-structure'', ''Go Structure'', Stack, ''cyan''),
      (''go-concurrency-patterns'', ''Go Concurrency'', Stack, ''cyan''),
      (''java-project-structure'', ''Java Structure'', Stack, ''orange''),
      (''spring-patterns'', ''Spring Patterns'', Stack, ''orange''),
      (''database-query-patterns'', ''Query Patterns'', Stack, ''purple''),
      (''migration-management'', ''DB Migrations'', Stack, ''purple''),
      (''mongodb-schema-patterns'', ''MongoDB Schemas'', Stack, ''green''),
      (''aggregation-pipeline'', ''Aggregation Pipeline'', Stack, ''green''),
      (''redis-caching-patterns'', ''Redis Caching'', Stack, ''red''),
      (''prisma-schema-patterns'', ''Prisma Schema'', Stack, ''pink''),
      (''supabase-patterns'', ''Supabase'', Stack, ''green''),
      (''containerisation-patterns'', ''Containerisation'', Stack, ''cyan''),
      (''stripe-integration-patterns'', ''Stripe Integration'', Stack, ''purple''),
      (''validating-user-input'', ''Input Validation'', Guardrail, ''yellow''),
      (''implementing-auth-patterns'', ''Auth Patterns'', Guardrail, ''orange''),
      (''managing-cors-policy'', ''CORS Policy'', Guardrail, ''orange''),
      (''managing-secrets-and-env'', ''Secrets & Env'', Guardrail, ''red''),
      (''handling-payment-security'', ''Payment Security'', Guardrail, ''red''),
      (''data-encryption-patterns'', ''Data Encryption'', Guardrail, ''red''),
      (''deploying-to-vercel'', ''Deploy '' @ rightArrow @ '' Vercel'', Deployment, ''fg''),
      (''deploying-to-aws'', ''Deploy '' @ rightArrow @ '' AWS'', Deployment, ''orange''),
      (''deploying-to-gcp'', ''Deploy '' @ rightArrow @ '' GCP'', Deployment, ''cyan'')]\<close>

definition DESCRIPTION_KEYWORDS :: "(string list \<times> string) list" where
  \<open>DESCRIPTION_KEYWORDS =
     [([''payment'', ''stripe'', ''checkout'', ''billing'', ''subscription'', ''purchase''], ''stripe-integration-patterns''),
      ([''cache'', ''caching'', ''redis''], ''redis-caching-patterns''),
      ([''supabase''], ''supabase-patterns''),
      ([''prisma'', '' orm''], ''prisma-schema-patterns''),
      ([''docker'', ''container'', ''kubernetes'', ''k8s''], ''containerisation-patterns''),
      ([''auth'', ''login'', ''jwt'', ''oauth'', ''sso'', ''sign in'', ''sign up''], ''implementing-auth-patterns''),
      ([''real-time'', ''realtime'', ''live update'', ''websocket''], ''redis-caching-patterns''),
      ([''secret'', ''api key'', ''credential'', ''.env''], ''managing-secrets-and-env''),
      ([''encrypt'', ''encryption'', ''at rest''], ''data-encryption-patterns''),
      ([''mongodb'', ''mongo''], ''mongodb-schema-patterns'')]\<close>

text \<open>\<open>s.includes(kw)\<close>: \<open>kw\<close> occurs in \<open>s\<close> as a contiguous substring.\<close>

fun strIncludes :: "string \<Rightarrow> string \<Rightarrow> bool" where
  "strIncludes [] kw = (kw = [])"
| "strIncludes (c # cs) kw = (prefix kw (c # cs) \<or> strIncludes cs kw)"

text \<open>
  A falsy description selects nothing; a string is scanned; any other truthy value has
  no \<open>toLowerCase\<close> method, and the call raises.
\<close>

definition selectFromDescription :: "jsval \<Rightarrow> error + string list" where
  "selectFromDescription description =
     (if \<not> truthy description then Inr []
      else case description of
        JStr d \<Rightarrow>
          (let lower = toLowerCase d
           in Inr (map snd (filter (\<lambda>(keywords, skill). list_ex (strIncludes lower) keywords)
                                   DESCRIPTION_KEYWORDS)))
      | _ \<Rightarrow> Inl TypeError)"

text \<open>
  The accumulator of \<open>selectSkills\<close>: the \<open>seen\<close> set and the \<open>skills\<close> array that the
  closure \<open>add\<close> updates together.
\<close>

type_synonym acc = "string set \<times> string list"

definition add :: "string \<Rightarrow> acc \<Rightarrow> acc" where
  "add name s =
     (case s of (seen, skills) \<Rightarrow>
        if name \<notin> seen then (insert name seen, skills @ [name]) else (seen, skills))"

text \<open>Track 2: the skills of each stack technology, in stack order.\<close>

fun addStack :: "jsval list \<Rightarrow> acc \<Rightarrow> error + acc" where
  "addStack [] s = Inr s"
| "addStack (tech # rest) s =
     (case lookupList STACK_SKILLS tech of
        Inl e \<Rightarrow> Inl e
      | Inr techSkills \<Rightarrow> addStack rest (fold add techSkills s))"

text \<open>Track 3: the names passed to \<open>add\<close> by the guardrail block, in program order.\<close>

definition guardrailNames :: "answers \<Rightarrow> nat \<Rightarrow> string list" where
  "guardrailNames a t =
     (if t \<ge> 1 then [''validating-user-input''] else [])
     @ (if t \<ge> 2
        then (if getProp a ''hasAuth'' = JStr ''yes'' then [''implementing-auth-patterns''] else [])
           @ (if getProp a ''projectType'' \<in> set [JStr ''web-app'', JStr ''api-backend'', JStr ''mobile-app'']
              then [''managing-cors-policy''] else [])
        else [])
     @ (if t \<ge> 3
        then [''managing-secrets-and-env'']
           @ (if getProp a ''hasPayments'' = JStr ''yes'' then [''handling-payment-security''] else [])
           @ (if getProp a ''hasSensitiveData'' = JStr ''yes'' then [''data-encryption-patterns''] else [])
        else [])"

definition selectSkills :: "answers \<Rightarrow> nat \<Rightarrow> error + string list" where
  "selectSkills a t =
     bindE (lookupList PROJECT_TYPE_SKILLS (getProp a ''projectType'')) (\<lambda>coreSkills.
     let s1 = fold add coreSkills ({}, []) in
     bindE (resolveStack a) (\<lambda>resolved.
     bindE (asArray resolved) (\<lambda>stack.
     bindE (addStack stack s1) (\<lambda>s2.
     let s3 = fold add (guardrailNames a t) s2 in
     bindE (selectFromDescription (getProp a ''projectDescription'')) (\<lambda>descSkills.
     let s4 = fold add descSkills s3 in
     bindE (lookupList DEPLOYMENT_SKILLS (getProp a ''deployment'')) (\<lambda>deploySkills.
     Inr (snd (fold add deploySkills s4))))))))"

text \<open>
  \<open>SKILL_METADATA[name]?.track ?? 'core'\<close>: an inherited property has no \<open>track\<close>, so it
  falls to \<open>core\<close> like a missing one.
\<close>

definition trackOf :: "string \<Rightarrow> track" where
  "trackOf name =
     (case lookupProp SKILL_METADATA (JStr name) of
        Inr (Some (Own (l, tr, ac))) \<Rightarrow> tr
      | _ \<Rightarrow> Core)"

text \<open>
  The groups object of \<open>selectSkillsByTrack\<close>. Every track of the metadata table is one
  of its four keys, so the guard that would create a missing group never fires.
\<close>

record skillGroups =
  coreGroup :: "string list"
  stackGroup :: "string list"
  guardrailGroup :: "string list"
  deploymentGroup :: "string list"

definition pushGroup :: "skillGroups \<Rightarrow> string \<Rightarrow> skillGroups" where
  "pushGroup groups name =
     (case trackOf name of
        Core \<Rightarrow> groups\<lparr>coreGroup := coreGroup groups @ [name]\<rparr>
      | Stack \<Rightarrow> groups\<lparr>stackGroup := stackGroup groups @ [name]\<rparr>
      | Guardrail \<Rightarrow> groups\<lparr>guardrailGroup := guardrailGroup groups @ [name]\<rparr>
      | Deployment \<Rightarrow> groups\<lparr>deploymentGroup := deploymentGroup groups @ [name]\<rparr>)"

definition groupByTrack :: "string list \<Rightarrow> skillGroups" where
  "groupByTrack all =
     foldl pushGroup
       \<lparr>coreGroup = [], stackGroup = [], guardrailGroup = [], deploymentGroup = []\<rparr> all"

definition selectSkillsByTrack :: "answers \<Rightarrow> nat \<Rightarrow> error + skillGroups" where
  "selectSkillsByTrack a t = bindE (selectSkills a t) (\<lambda>all. Inr (groupByTrack all))"

section \<open>Decision tree orchestrator (decisionTree.js)\<close>

definition OUTPUT_FILES :: "(string \<times> string) list" where
  \<open>OUTPUT_FILES =
     [(''claude-code'', ''CLAUDE.md''),
      (''gemini-cli'', ''GEMINI.txt''),
      (''cursor'', ''.cursorrules''),
      (''windsurf'', ''.windsurfrules''),
      (''other'', ''PROJECT_CONFIG.md'')]\<close>

definition BEHAVIORAL_DIRECTIVES :: "string list" where
  \<open>BEHAVIORAL_DIRECTIVES =
     [''Write production-ready code by default '' @ emDash @ '' no placeholders, no TODO stubs unless explicitly asked'',
      ''Prefer editing existing files over creating new ones; avoid file bloat'',
      ''Read files before modifying them; understand existing patterns before suggesting changes'',
      ''Use the minimum complexity that satisfies the requirement '' @ emDash @ '' resist over-engineering'',
      ''All clickable elements need cursor-pointer and visible hover feedback'',
      ''Never skip error handling at system boundaries (user input, external APIs, file I/O)'',
      ''Ask before taking irreversible or high-blast-radius actions (deleting files, force pushing)'']\<close>

text \<open>
  The result object. The fields of \<open>meta\<close> carry the prefix \<open>meta\<close> (the source calls
  them \<open>skillCount\<close>, \<open>coreSkills\<close>, \<open>stackSkills\<close>, \<open>guardrailSkills\<close>, \<open>deploySkills\<close> and
  \<open>guardrailTier\<close>).
\<close>

record meta =
  metaSkillCount :: nat
  metaCoreSkills :: nat
  metaStackSkills :: nat
  metaGuardrailSkills :: nat
  metaDeploySkills :: nat
  metaGuardrailTier :: nat

record decisionTreeResult =
  role :: string
  roleComponents :: roleComponents
  skills :: "string list"
  skillsByTrack :: skillGroups
  guardrailTier :: nat
  guardrailLabel :: string
  guardrailColor :: string
  guardrailInstructions :: "string list"
  guardrailByTier :: "string list list"
  behavioralDirectives :: "string list"
  outputFile :: "string jsprop"
  resolvedStack :: "jsval list"
  meta :: meta

text \<open>
  When \<open>resolveStack\<close> yields an inherited property, \<open>buildRole\<close> has already raised, so
  the \<open>resolvedStack\<close> of a result is always an array.
\<close>

definition runDecisionTree :: "answers \<Rightarrow> error + decisionTreeResult" where
  "runDecisionTree a =
     (let g = determineGuardrails a in
      bindE (buildRole a) (\<lambda>r.
      bindE (buildRoleComponents a) (\<lambda>rc.
      bindE (selectSkills a (tier g)) (\<lambda>sk.
      bindE (selectSkillsByTrack a (tier g)) (\<lambda>byTrack.
      bindE (lookupProp OUTPUT_FILES (getProp a ''llmTarget'')) (\<lambda>f.
      let out = orElse f (Own ''PROJECT_CONFIG.md'') in
      bindE (resolveStack a) (\<lambda>resolved.
      bindE (asArray resolved) (\<lambda>stack.
      Inr \<lparr> role = r,
            roleComponents = rc,
            skills = sk,
            skillsByTrack = byTrack,
            guardrailTier = tier g,
            guardrailLabel = label g,
            guardrailColor = color g,
            guardrailInstructions = instructions g,
            guardrailByTier = byTier g,
            behavioralDirectives = BEHAVIORAL_DIRECTIVES,
            outputFile = out,
            resolvedStack = stack,
            meta = \<lparr> metaSkillCount = length sk,
                     metaCoreSkills = length (coreGroup byTrack),
                     metaStackSkills = length (stackGroup byTrack),
                     metaGuardrailSkills = length (guardrailGroup byTrack),
                     metaDeploySkills = length (deploymentGroup byTrack),
                     metaGuardrailTier = tier g \<rparr> \<rparr>))))))))"

text \<open>\<open>None\<close> is the \<open>null\<close> returned while no project type has been chosen.\<close>

definition runPartialDecisionTree :: "answers \<Rightarrow> (error + decisionTreeResult) option" where
  "runPartialDecisionTree a =
     (if \<not> truthy (getProp a ''projectType'') then None else Some (runDecisionTree a))"

section \<open>Config assembler (configAssembler.js)\<close>

definition PROJECT_TYPE_LABELS :: "(string \<times> string) list" where
  \<open>PROJECT_TYPE_LABELS =
     [(''web-app'', ''Web Application''),
      (''cli-tool'', ''CLI Tool''),
      (''api-backend'', ''API / Backend Service''),
      (''data-pipeline'', ''Data Pipeline''),
      (''discord-slack-bot'', ''Bot (Discord / Slack)''),
      (''mobile-app'', ''Mobile Application''),
      (''other'', ''Software Project'')]\<close>

definition DEPLOYMENT_LABELS :: "(string \<times> string) list" where
  \<open>DEPLOYMENT_LABELS =
     [(''vercel'', ''Vercel''),
      (''aws'', ''AWS''),
      (''gcp'', ''GCP''),
      (''local-only'', ''Local only (not deployed)''),
      (''not-sure'', ''Deployment target TBD'')]\<close>

definition buildScaffoldStep :: "jsval \<Rightarrow> jsval list \<Rightarrow> jsval \<Rightarrow> string" where
  \<open>buildScaffoldStep ptype stack deployment =
     (let hasReact = JStr ''react'' \<in> set stack;
          hasNextjs = JStr ''nextjs'' \<in> set stack;
          hasPython = JStr ''python'' \<in> set stack;
          hasNode = JStr ''nodejs'' \<in> set stack;
          hasGo = JStr ''go'' \<in> set stack
      in
      if ptype = JStr ''web-app'' then
        (if hasNextjs then 
           ''Scaffold the project with `npx create-next-app@latest` using the App Router; configure TypeScript, ESLint, and Tailwind at setup''
         else if hasReact then 
           ''Scaffold the project with `npm create vite@latest` (React + TypeScript template); set up ESLint, Prettier, and path aliases immediately''
         else 
           ''Scaffold the frontend project; configure the build tool, linter, and code formatter before writing any feature code'')
      else if ptype = JStr ''api-backend'' then
        (if hasNode then 
           ''Initialise the Node.js project (`npm init`); install Express/Fastify, set up TypeScript, and configure the project structure (routes/, controllers/, services/, middleware/)''
         else if hasPython then 
           ''Create a Python virtual environment; install FastAPI/Flask with uvicorn; set up pyproject.toml and the package structure (api/, services/, models/)''
         else if hasGo then 
           ''Initialise the Go module (`go mod init`); create the cmd/ and internal/ directory structure; set up the main entry point and dependency injection wiring''
         else 
           ''Scaffold the API project; establish the directory structure and dependency management before any route implementation'')
      else if ptype = JStr ''cli-tool'' then
        (if hasNode then 
           ''Initialise the Node.js project; install commander or yargs; set up the bin/ entry point and src/ module structure''
         else if hasPython then 
           ''Set up the Python project with pyproject.toml; install Click or Typer; configure the package entry point and src/ layout''
         else 
           ''Scaffold the CLI project; set up the build system and entry point configuration'')
      else if ptype = JStr ''data-pipeline'' then
        (if hasPython then 
           ''Set up the Python project with pyproject.toml; install pipeline dependencies (pandas, SQLAlchemy, etc.); create the pipeline/, transformers/, and connectors/ directory structure''
         else 
           ''Scaffold the data pipeline project; set up the runtime, dependency management, and stage directory structure'')
      else if ptype = JStr ''discord-slack-bot'' then
        (if hasNode then 
           ''Initialise the Node.js project; install the bot SDK (discord.js / @slack/bolt); set up the commands/, events/, and middleware/ directory structure''
         else 
           ''Scaffold the bot project; install the platform SDK and set up the event handler structure'')
      else if ptype = JStr ''mobile-app'' then
        
           ''Scaffold the project with the appropriate CLI (Expo, React Native CLI, or Flutter); configure the development environment and emulator targets''
      else 
           ''Scaffold the project; configure the build system, linter, and directory structure before writing any feature code'')\<close>

definition buildStructureStep :: "jsval \<Rightarrow> jsval list \<Rightarrow> string" where
  \<open>buildStructureStep ptype stack =
     (let hasReact = (JStr ''react'' \<in> set stack \<or> JStr ''nextjs'' \<in> set stack) in
      if ptype = JStr ''web-app'' \<and> hasReact then
        
           ''Build the design system foundation first: global CSS variables/tokens, base layout components (Navbar, Footer, Page), and the reusable UI primitive components (Button, Card, Input) before any feature pages''
      else if ptype = JStr ''api-backend'' then
        
           ''Define the data models and API contract (OpenAPI spec or TypeScript interfaces) before implementing any routes; this contract is the source of truth for all subsequent work''
      else if ptype = JStr ''data-pipeline'' then
        
           ''Define the source and target schemas as typed interfaces/dataclasses before implementing any transformation logic; document the expected data shape at each pipeline stage''
      else 
           ''Define the core data models and module boundaries before implementing any features; establish naming conventions and file organisation patterns the whole codebase will follow'')\<close>

definition buildDataLayerStep :: "answers \<Rightarrow> jsval list \<Rightarrow> string" where
  \<open>buildDataLayerStep a stack =
     (let hasPrisma = JStr ''prisma'' \<in> set stack;
          hasSupabase = JStr ''supabase'' \<in> set stack;
          hasMongo = JStr ''mongodb'' \<in> set stack
      in
      if hasPrisma then 
           ''Define the Prisma schema (prisma/schema.prisma) with all models, relations, and indexes; run `prisma migrate dev` to create the initial migration; implement the singleton Prisma client module''
      else if hasSupabase then 
           ''Set up the Supabase project; enable Row Level Security on every table immediately; define RLS policies for each operation (SELECT, INSERT, UPDATE, DELETE) before writing any queries''
      else if hasMongo then 
           ''Define Mongoose schemas with validation rules and indexes for every collection; create a database connection singleton; add indexes for all query fields before any data operations''
      else 
           ''Set up the database connection and ORM; define the initial schema migration; verify the connection and run the first migration before building any data access logic'')\<close>

definition buildMiddleSteps :: "jsval \<Rightarrow> answers \<Rightarrow> jsval list \<Rightarrow> string list" where
  \<open>buildMiddleSteps ptype a stack =
     (let hasReact = (JStr ''react'' \<in> set stack \<or> JStr ''nextjs'' \<in> set stack);
          hasNextjs = JStr ''nextjs'' \<in> set stack
      in
      (if ptype = JStr ''web-app'' then
         (if hasNextjs then
            [
           ''Build the route structure with App Router layouts; implement loading.jsx and error.jsx for every data-fetching route before adding content'',
             
           ''Build each page as a Server Component by default; only add "use client" to components that require interactivity or browser APIs'']
          else if hasReact then
            [
           ''Set up the router and implement the page shell components with placeholder content; verify navigation works before building page content'',
             
           ''Implement the data fetching layer (service modules or React Query); connect to real data before polishing UI'']
          else [])
         @ [
           ''Build all user-facing features; implement loading states, error states, and empty states for every async operation'']
       else [])
      @ (if ptype = JStr ''api-backend'' then
           [
           ''Implement the route structure with placeholder handlers; verify the server starts and all routes respond with 200 before adding logic'',
            
           ''Build each feature from the data layer up: repository '' @ rightArrow @ '' service '' @ rightArrow @ '' controller; test each layer independently'',
            
           ''Implement request validation middleware (Zod/Joi/Pydantic) before wiring any handler to real business logic'']
         else [])
      @ (if ptype = JStr ''data-pipeline'' then
           [
           ''Build and test each pipeline stage independently with a small sample dataset before chaining them'',
            
           ''Implement idempotency checks and checkpointing; running the pipeline twice must produce the same result'',
            
           ''Add structured logging and metrics (records processed, failed, duration) to every stage'']
         else [])
      @ (if ptype = JStr ''cli-tool'' then
           [
           ''Implement the command surface (argument parsing, help text, --version) before any business logic'',
            
           ''Build the core logic as pure, testable functions; connect them to the CLI layer only after unit tests pass'']
         else [])
      @ (if ptype = JStr ''discord-slack-bot'' then
           [
           ''Register commands and verify the bot connects and responds to a basic ping before implementing any handlers'',
            
           ''Implement each command handler in isolation; test with the bot in a private test server channel'']
         else [])
      @ (if getProp a ''hasAuth'' = JStr ''yes'' then
           [
           ''Implement the authentication flow (registration, login, session management) and route protection middleware before building any authenticated features'']
         else [])
      @ (if getProp a ''hasPayments'' = JStr ''yes'' then
           [
           ''Integrate the payment provider in test mode first; implement and test the complete payment flow (create session '' @ rightArrow @ '' confirm '' @ rightArrow @ '' webhook '' @ rightArrow @ '' fulfil) end-to-end before writing any UI for it'']
         else []))\<close>

definition buildSecurityStep :: "answers \<Rightarrow> nat \<Rightarrow> string" where
  \<open>buildSecurityStep a t =
     (let items =
            (if t \<ge> 1 then [
           ''input validation on all user-facing fields''] else [])
          @ (if getProp a ''hasAuth'' = JStr ''yes''
             then [
           ''auth middleware protecting all authenticated routes''] else [])
          @ (if t \<ge> 2
             then [
           ''CORS policy configuration and security headers (Helmet/equivalents)''] else [])
          @ (if t \<ge> 3
             then [
           ''secrets audit (no hardcoded values), encryption for sensitive fields''] else [])
      in ''Security hardening pass: verify '' @ join '', '' items
           @ ''; run a dependency audit before deploying'')\<close>

definition buildDeployStep :: "jsval \<Rightarrow> jsval list \<Rightarrow> string" where
  \<open>buildDeployStep deployment stack =
     (if deployment = JStr ''vercel'' then 
           ''Connect the repository to Vercel; configure environment variables in the Vercel dashboard; verify the Preview deployment for the main branch before enabling production''
      else if deployment = JStr ''aws'' then 
           ''Define infrastructure as code (CDK or Terraform); deploy to a staging environment first; verify health checks pass before routing production traffic''
      else if deployment = JStr ''gcp'' then 
           ''Build and push the container image to Artifact Registry; deploy to Cloud Run with the correct service account and Secret Manager bindings; verify the health endpoint before going live''
      else 
           ''Configure the deployment pipeline; deploy to a staging environment first and verify all critical paths before production'')\<close>

definition testingStep :: string where
  \<open>testingStep = 
           ''Write unit tests for all business logic and integration tests for external boundaries before marking any feature complete''\<close>

text \<open>
  The steps of \<open>buildSequence\<close> before they are numbered and joined. The first array
  method called on the resolved stack is \<open>includes\<close>, which raises on an inherited
  property.
\<close>

definition buildSteps :: "answers \<Rightarrow> decisionTreeResult \<Rightarrow> error + string list" where
  "buildSteps a r =
     bindE (resolveStack a) (\<lambda>resolved.
     bindE (asArray resolved) (\<lambda>stack.
     let hasDB = list_ex (\<lambda>t. t \<in> set [JStr ''postgres'', JStr ''mysql'', JStr ''mongodb'']) stack;
         hasPrisma = JStr ''prisma'' \<in> set stack;
         hasSupabase = JStr ''supabase'' \<in> set stack;
         ptype = getProp a ''projectType''
     in Inr
       ([buildScaffoldStep ptype stack (getProp a ''deployment'')]
        @ [buildStructureStep ptype stack]
        @ (if hasDB \<or> hasPrisma \<or> hasSupabase then [buildDataLayerStep a stack] else [])
        @ buildMiddleSteps ptype a stack
        @ (if guardrailTier r \<ge> 1 then [buildSecurityStep a (guardrailTier r)] else [])
        @ [testingStep]
        @ (if truthy (getProp a ''deployment'') \<and> getProp a ''deployment'' \<noteq> JStr ''local-only''
           then [buildDeployStep (getProp a ''deployment'') stack] else []))))"

definition numberSteps :: "string list \<Rightarrow> string list" where
  "numberSteps steps = map (\<lambda>(i, step). natToString (i + 1) @ ''. '' @ step) (enumerate 0 steps)"

definition buildSequence :: "answers \<Rightarrow> decisionTreeResult \<Rightarrow> error + string" where
  "buildSequence a r = bindE (buildSteps a r) (\<lambda>steps. Inr (join nl (numberSteps steps)))"

definition sectionRole :: "decisionTreeResult \<Rightarrow> string" where
  "sectionRole r = ''## Role'' @ nl @ nl @ role r"

text \<open>
  The two label lookups come first; then a truthy description that is not a string has
  no \<open>trim\<close> method, and the call raises.
\<close>

definition sectionProjectContext :: "answers \<Rightarrow> error + string" where
  "sectionProjectContext a =
     bindE (lookupProp PROJECT_TYPE_LABELS (getProp a ''projectType'')) (\<lambda>tl.
     bindE (lookupProp DEPLOYMENT_LABELS (getProp a ''deployment'')) (\<lambda>dl.
     let typeLabel = orElse tl (Own ''Software Project'');
         deployLabel = orElse dl (Own '''')
     in bindE (if truthy (getProp a ''projectDescription'')
               then (case getProp a ''projectDescription'' of
                       JStr d \<Rightarrow> Inr (trim d)
                     | _ \<Rightarrow> Inl TypeError)
               else Inr ''_No description provided._'') (\<lambda>descr.
        Inr (join nl
          ([''## Project Context'', '''', descr, '''', ''- **Type:** '' @ textOf typeLabel]
           @ (if truthyLabel deployLabel then [''- **Deployment:** '' @ textOf deployLabel]
              else []))))))"

text \<open>
  One bullet per id of the resolved stack: its label, or the id itself converted to a
  string when it has none.
\<close>

fun stackLines :: "jsval list \<Rightarrow> error + string list" where
  "stackLines [] = Inr []"
| "stackLines (t # ts) =
     (case lookupProp STACK_LABELS t of
        Inl e \<Rightarrow> Inl e
      | Inr v \<Rightarrow>
          (case (case v of Some l \<Rightarrow> Inr (textOf l) | None \<Rightarrow> toStringJS t) of
             Inl e \<Rightarrow> Inl e
           | Inr line \<Rightarrow>
               (case stackLines ts of
                  Inl e \<Rightarrow> Inl e
                | Inr rest \<Rightarrow> Inr ((''- '' @ line) # rest))))"

definition sectionTechStack :: "answers \<Rightarrow> decisionTreeResult \<Rightarrow> error + string" where
  "sectionTechStack a r =
     (let stack = resolvedStack r in
      if length stack = 0
      then Inr (''## Tech Stack'' @ nl @ nl @ ''_Stack to be determined._'')
      else
        bindE (stackLines stack) (\<lambda>lines.
        let recommended =
              (if getProp a ''stackApproach'' = JStr ''recommend''
               then nl @ nl @ ''> Stack was auto-selected by ConfigKit based on project type.''
               else '''')
        in Inr (''## Tech Stack'' @ nl @ nl @ join nl lines @ recommended)))"

definition sectionBehavioralDirectives :: "decisionTreeResult \<Rightarrow> string" where
  "sectionBehavioralDirectives r =
     ''## Behavioral Directives'' @ nl @ nl
     @ join nl (map (\<lambda>d. ''- '' @ d) (behavioralDirectives r))"

definition sectionGuardrails :: "decisionTreeResult \<Rightarrow> string" where
  "sectionGuardrails r =
     (let header = ''## Security Guardrails (Tier '' @ natToString (guardrailTier r) @ '': ''
                   @ guardrailLabel r @ '')''
      in header @ nl @ nl @ join nl (map (\<lambda>i. ''- '' @ i) (guardrailInstructions r)))"

definition sectionSkillPacks :: "decisionTreeResult \<Rightarrow> string" where
  "sectionSkillPacks r =
     (if length (skills r) = 0
      then ''## Skill Packs Loaded'' @ nl @ nl @ ''_No skill packs selected._''
      else ''## Skill Packs Loaded'' @ nl @ nl
           @ join nl (map (\<lambda>s. ''- skills/'' @ s @ ''/SKILL.md'') (skills r)))"

definition sectionBuildSequence :: "answers \<Rightarrow> decisionTreeResult \<Rightarrow> error + string" where
  "sectionBuildSequence a r =
     bindE (buildSequence a r) (\<lambda>b.
       Inr (''## Build Sequence'' @ nl @ nl @ ''Approach this project in the following order:''
            @ nl @ nl @ b))"

text \<open>
  The override record: each section is a string or \<open>null\<close>; an empty string is falsy and
  falls back to the template like \<open>null\<close>.
\<close>

record aiSections =
  aiRole :: "string option"
  aiContext :: "string option"
  aiDirectives :: "string option"
  aiBuildSeq :: "string option"

text \<open>\<open>aiSections?.field ? heading + field : template\<close>.\<close>

definition override :: "aiSections option \<Rightarrow> (aiSections \<Rightarrow> string option) \<Rightarrow> string option" where
  "override ai field =
     (case ai of
        None \<Rightarrow> None
      | Some sections \<Rightarrow>
          (case field sections of
             None \<Rightarrow> None
           | Some s \<Rightarrow> if s \<noteq> [] then Some s else None))"

definition divider :: string where
  "divider = nl @ nl @ ''---'' @ nl @ nl"

text \<open>
  The eight parts of the document, before they are joined by the divider: the header
  comment and the seven sections. \<open>today\<close> is the date that the header takes from the
  clock.
\<close>

definition assembleParts ::
  "string \<Rightarrow> answers \<Rightarrow> decisionTreeResult \<Rightarrow> aiSections option \<Rightarrow> error + string list" where
  "assembleParts today a r ai =
     (let roleSection =
            (case override ai aiRole of
               Some s \<Rightarrow> ''## Role'' @ nl @ nl @ s
             | None \<Rightarrow> sectionRole r)
      in
      bindE (case override ai aiContext of
               Some s \<Rightarrow> Inr (''## Project Context'' @ nl @ nl @ s)
             | None \<Rightarrow> sectionProjectContext a) (\<lambda>contextSection.
      let directivesSection =
            (case override ai aiDirectives of
               Some s \<Rightarrow> ''## Behavioral Directives'' @ nl @ nl @ s
             | None \<Rightarrow> sectionBehavioralDirectives r)
      in
      bindE (case override ai aiBuildSeq of
               Some s \<Rightarrow> Inr (''## Build Sequence'' @ nl @ nl @ s)
             | None \<Rightarrow> sectionBuildSequence a r) (\<lambda>buildSeqSection.
      bindE (sectionTechStack a r) (\<lambda>techStackSection.
      Inr [''<!-- Generated by ConfigKit -->'' @ nl @ ''<!-- '' @ today @ '' | ''
             @ textOf (outputFile r) @ '' | Guardrail Tier '' @ natToString (guardrailTier r)
             @ '': '' @ guardrailLabel r
             @ (if ai \<noteq> None then '' | AI-Enhanced'' else '''') @ '' -->'',
           roleSection,
           contextSection,
           techStackSection,
           directivesSection,
           sectionGuardrails r,
           sectionSkillPacks r,
           buildSeqSection]))))"

definition assembleConfig ::
  "string \<Rightarrow> answers \<Rightarrow> decisionTreeResult \<Rightarrow> aiSections option \<Rightarrow> error + string" where
  "assembleConfig today a r ai =
     bindE (assembleParts today a r ai) (\<lambda>sections. Inr (join divider sections))"

section \<open>Specification-level notions for the skill selector\<close>

text \<open>
  \<open>keepFirst\<close> removes every repeated occurrence of an element but the first.
\<close>

definition keepFirst :: "string list \<Rightarrow> string list" where
  "keepFirst xs = rev (remdups (rev xs))"

text \<open>The skills that the stack track passes to add, in order.\<close>

fun stackCandidates :: "jsval list \<Rightarrow> error + string list" where
  "stackCandidates [] = Inr []"
| "stackCandidates (tech # rest) =
     (case lookupList STACK_SKILLS tech of
        Inl e \<Rightarrow> Inl e
      | Inr techSkills \<Rightarrow>
          (case stackCandidates rest of Inl e \<Rightarrow> Inl e | Inr others \<Rightarrow> Inr (techSkills @ others)))"

text \<open>All names passed to add by the five tracks, in program order.\<close>

definition selectionOrder :: "answers \<Rightarrow> nat \<Rightarrow> error + string list" where
  "selectionOrder a t =
     bindE (lookupList PROJECT_TYPE_SKILLS (getProp a ''projectType'')) (\<lambda>coreSkills.
     bindE (resolveStack a) (\<lambda>resolved.
     bindE (asArray resolved) (\<lambda>stack.
     bindE (stackCandidates stack) (\<lambda>stackSkills.
     bindE (selectFromDescription (getProp a ''projectDescription'')) (\<lambda>descSkills.
     bindE (lookupList DEPLOYMENT_SKILLS (getProp a ''deployment'')) (\<lambda>deploySkills.
     Inr (coreSkills @ stackSkills @ guardrailNames a t @ descSkills @ deploySkills)))))))"

text \<open>The names a table can contribute.\<close>

definition tableNames :: "(string \<times> string list) list \<Rightarrow> string list" where
  "tableNames tbl = concat (map snd tbl)"

definition descriptionSelects :: "answers \<Rightarrow> string \<Rightarrow> bool" where
  "descriptionSelects a name =
     (case selectFromDescription (getProp a ''projectDescription'') of
        Inl e \<Rightarrow> False
      | Inr ds \<Rightarrow> name \<in> set ds)"

section \<open>Specification-level notions for the build sequence\<close>

text \<open>The four texts a deployment step can have.\<close>

definition deployStepTexts :: "string list" where
  "deployStepTexts =
     [buildDeployStep (JStr ''vercel'') [], buildDeployStep (JStr ''aws'') [],
      buildDeployStep (JStr ''gcp'') [], buildDeployStep JUndefined []]"

definition hasDeployStep :: "string list \<Rightarrow> bool" where
  "hasDeployStep steps = list_ex (\<lambda>s. s \<in> set deployStepTexts) steps"

definition deployStepText :: "jsval \<Rightarrow> string" where
  "deployStepText d =
     (if d = JStr ''vercel'' then
        ''Connect the repository to Vercel; configure environment variables in the Vercel dashboard; verify the Preview deployment for the main branch before enabling production''
      else if d = JStr ''aws'' then
        ''Define infrastructure as code (CDK or Terraform); deploy to a staging environment first; verify health checks pass before routing production traffic''
      else if d = JStr ''gcp'' then
        ''Build and push the container image to Artifact Registry; deploy to Cloud Run with the correct service account and Secret Manager bindings; verify the health endpoint before going live''
      else
        ''Configure the deployment pipeline; deploy to a staging environment first and verify all critical paths before production'')"

text \<open>An override record in which only \<open>role\<close> is set.\<close>

definition roleOnly :: "string \<Rightarrow> aiSections" where
  "roleOnly txt = \<lparr> aiRole = Some txt, aiContext = None, aiDirectives = None, aiBuildSeq = None \<rparr>"

section \<open>Specification-level notions for totality\<close>

text \<open>
  The description is absent, \<open>null\<close> or a string.
\<close>

definition descriptionIsText :: "answers \<Rightarrow> bool" where
  "descriptionIsText a =
     (case getProp a ''projectDescription'' of
        JUndefined \<Rightarrow> True
      | JNull \<Rightarrow> True
      | JStr d \<Rightarrow> True
      | _ \<Rightarrow> False)"

text \<open>
  A value converts to a property key, and the key is not the name of a property
  inherited from \<open>Object.prototype\<close>.
\<close>

definition plainKey :: "jsval \<Rightarrow> bool" where
  "plainKey v =
     (case toPropertyKey v of Inl e \<Rightarrow> False | Inr k \<Rightarrow> k \<notin> set objectPrototypeNames)"

text \<open>
  The values that the engine uses as lookup keys are such: the project type, the
  deployment target, the LLM target, and the entries of \<open>stackTech\<close> when the stack is
  the chosen one.
\<close>

definition plainKeys :: "answers \<Rightarrow> bool" where
  "plainKeys a =
     (plainKey (getProp a ''projectType'')
      \<and> plainKey (getProp a ''deployment'')
      \<and> plainKey (getProp a ''llmTarget'')
      \<and> (getProp a ''stackApproach'' \<noteq> JStr ''recommend'' \<longrightarrow>
           (case getProp a ''stackTech'' of
              JArr xs \<Rightarrow> list_all plainKey xs
            | _ \<Rightarrow> True)))"

text \<open>The value converts to a key that the table does not have.\<close>

definition unknownIn :: "(string \<times> 'a) list \<Rightarrow> jsval \<Rightarrow> bool" where
  "unknownIn tbl v =
     (case toPropertyKey v of Inl e \<Rightarrow> False | Inr k \<Rightarrow> map_of tbl k = None)"

definition genericScaffoldStep :: string where
  "genericScaffoldStep =
     ''Scaffold the project; configure the build system, linter, and directory structure before writing any feature code''"

section \<open>Example inputs\<close>

definition sloppyFlags :: answers where
  "sloppyFlags =
     [''hasAuth'' \<mapsto> JStr ''yes'', ''storesData'' \<mapsto> JStr ''Yes'',
      ''hasPayments'' \<mapsto> JBool True, ''projectType'' \<mapsto> JStr ''cli-tool'']"

definition defaultedFlags :: answers where
  "defaultedFlags =
     [''hasAuth'' \<mapsto> JStr ''yes'', ''storesData'' \<mapsto> JStr ''no'',
      ''hasPayments'' \<mapsto> JStr ''no'', ''hasSensitiveData'' \<mapsto> JStr ''no'']"


definition dedupExample :: answers where
  "dedupExample =
     [''projectType'' \<mapsto> JStr ''cli-tool'', ''stackApproach'' \<mapsto> JStr ''choose'',
      ''stackTech'' \<mapsto> JArr [JStr ''postgres'', JStr ''mysql'', JStr ''redis''],
      ''projectDescription'' \<mapsto> JStr ''We cache with Redis and users LOGIN via JWT'',
      ''hasAuth'' \<mapsto> JStr ''yes'', ''storesData'' \<mapsto> JStr ''yes'',
      ''hasPayments'' \<mapsto> JStr ''no'', ''hasSensitiveData'' \<mapsto> JStr ''no'',
      ''deployment'' \<mapsto> JStr ''gcp'']"

definition dedupExampleSkills :: "string list" where
  "dedupExampleSkills =
     [''building-cli-tools'', ''handling-io-streams'', ''error-handling-patterns'',
      ''database-query-patterns'', ''migration-management'', ''redis-caching-patterns'',
      ''validating-user-input'', ''implementing-auth-patterns'', ''deploying-to-gcp'']"

definition paymentsExample :: answers where
  "paymentsExample =
     [''projectType'' \<mapsto> JStr ''web-app'', ''stackApproach'' \<mapsto> JStr ''recommend'',
      ''hasAuth'' \<mapsto> JStr ''no'', ''storesData'' \<mapsto> JStr ''no'',
      ''hasPayments'' \<mapsto> JStr ''yes'', ''hasSensitiveData'' \<mapsto> JStr ''no'',
      ''deployment'' \<mapsto> JStr ''vercel'']"

definition paymentsExampleSkills :: "string list" where
  "paymentsExampleSkills =
     [''building-web-apps'', ''structuring-components'', ''integrating-apis'',
      ''managing-react-state'', ''structuring-react-components'',
      ''nextjs-routing-patterns'', ''ssr-and-data-fetching'',
      ''database-query-patterns'', ''migration-management'', ''prisma-schema-patterns'',
      ''validating-user-input'', ''managing-cors-policy'', ''managing-secrets-and-env'',
      ''handling-payment-security'', ''deploying-to-vercel'']"

text \<open>The result of the decision tree for an empty answers map.\<close>

definition baselineResult :: decisionTreeResult where
  "baselineResult =
     \<lparr> role = ''You are a Senior Software Engineer.'',
       roleComponents =
         \<lparr> baseRole = Own ''Senior Software Engineer'', stackSpecs = [], secSpecs = [],
           full = ''You are a Senior Software Engineer.'' \<rparr>,
       skills = [],
       skillsByTrack =
         \<lparr> coreGroup = [], stackGroup = [], guardrailGroup = [], deploymentGroup = [] \<rparr>,
       guardrailTier = 0,
       guardrailLabel = ''BASELINE'',
       guardrailColor = ''comment'',
       guardrailInstructions = concat (take 1 TIER_INSTRUCTIONS),
       guardrailByTier = take 1 TIER_INSTRUCTIONS,
       behavioralDirectives = BEHAVIORAL_DIRECTIVES,
       outputFile = Own ''PROJECT_CONFIG.md'',
       resolvedStack = [],
       meta = \<lparr> metaSkillCount = 0, metaCoreSkills = 0, metaStackSkills = 0,
                metaGuardrailSkills = 0, metaDeploySkills = 0, metaGuardrailTier = 0 \<rparr> \<rparr>"

definition notSureDeployment :: answers where
  "notSureDeployment = [''deployment'' \<mapsto> JStr ''not-sure'']"

definition notSureSteps :: "string list" where
  "notSureSteps =
     [''Scaffold the project; configure the build system, linter, and directory structure before writing any feature code'',
      ''Define the core data models and module boundaries before implementing any features; establish naming conventions and file organisation patterns the whole codebase will follow'',
      ''Write unit tests for all business logic and integration tests for external boundaries before marking any feature complete'',
      ''Configure the deployment pipeline; deploy to a staging environment first and verify all critical paths before production'']"

definition unansweredDeployment :: answers where
  "unansweredDeployment = [''projectType'' \<mapsto> JStr ''cli-tool'']"

definition unansweredSteps :: "string list" where
  "unansweredSteps =
     [''Scaffold the CLI project; set up the build system and entry point configuration'',
      ''Define the core data models and module boundaries before implementing any features; establish naming conventions and file organisation patterns the whole codebase will follow'',
      ''Implement the command surface (argument parsing, help text, --version) before any business logic'',
      ''Build the core logic as pure, testable functions; connect them to the CLI layer only after unit tests pass'',
      ''Write unit tests for all business logic and integration tests for external boundaries before marking any feature complete'']"

text \<open>The scenario of claim C7.\<close>

definition scenario :: answers where
  "scenario =
     [''projectType'' \<mapsto> JStr ''api-backend'', ''stackApproach'' \<mapsto> JStr ''choose'',
      ''stackTech'' \<mapsto> JArr [JStr ''nodejs'', JStr ''postgres''], ''hasAuth'' \<mapsto> JStr ''yes'',
      ''storesData'' \<mapsto> JStr ''no'', ''hasPayments'' \<mapsto> JStr ''no'',
      ''hasSensitiveData'' \<mapsto> JStr ''no'', ''deployment'' \<mapsto> JStr ''aws'']"

definition scenarioSkills :: "string list" where
  "scenarioSkills =
     [''designing-rest-apis'', ''request-validation'', ''api-error-handling'',
      ''nodejs-async-patterns'', ''express-middleware'', ''database-query-patterns'',
      ''migration-management'', ''validating-user-input'', ''deploying-to-aws'']"

definition scenarioSecurityStep :: string where
  "scenarioSecurityStep =
     ''Security hardening pass: verify input validation on all user-facing fields, auth middleware protecting all authenticated routes; run a dependency audit before deploying''"

text \<open>An unrecognised project type that names a property of \<open>Object.prototype\<close>.\<close>

definition inheritedProjectType :: answers where
  "inheritedProjectType =
     [''stackApproach'' \<mapsto> JStr ''recommend'', ''projectType'' \<mapsto> JStr ''toString'',
      ''stackTech'' \<mapsto> JArr [JStr ''react'']]"

text \<open>A description that is not text.\<close>

definition numericDescription :: answers where
  "numericDescription =
     [''projectType'' \<mapsto> JStr ''web-app'', ''projectDescription'' \<mapsto> JNum 42]"

text \<open>
  Answers with unknown enum values, a chosen stack of mixed entries, a flag that is not a
  string, and a description with white space around it.
\<close>

definition oddAnswers :: answers where
  "oddAnswers =
     [''projectType'' \<mapsto> JStr ''spaceship'', ''stackApproach'' \<mapsto> JStr ''choose'',
      ''stackTech'' \<mapsto>
        JArr [JStr ''fortran'', JNum 7, JNull, JArr [JStr ''react''],
              JObj [(''name'', JStr ''go'')]],
      ''projectDescription'' \<mapsto> JStr ''  A rover console with LOGIN  '',
      ''llmTarget'' \<mapsto> JStr ''copilot'', ''deployment'' \<mapsto> JStr ''mars'',
      ''hasAuth'' \<mapsto> JBool True]"

definition oddSkills :: "string list" where
  "oddSkills =
     [''managing-react-state'', ''structuring-react-components'',
      ''implementing-auth-patterns'']"

definition oddRole :: string where
  "oddRole =
     ''You are a Senior Software Engineer, specializing in React.'' @ nl @ nl
     @ ''**Project:** A rover console with LOGIN''"

text \<open>A project type that is an object with an own \<open>toString\<close> property.\<close>

definition objectProjectType :: answers where
  "objectProjectType = [''projectType'' \<mapsto> JObj [(''toString'', JNull)]]"

section \<open>Sanity of the embedding\<close>

text \<open>
  No table has a repeated key, so reading a table with \<open>map_of\<close> agrees with the object
  literal; \<open>strIncludes\<close> is the contiguous-sublist relation; and the rounds allowed to
  \<open>trim\<close> are enough: no white space is left at either end.
\<close>

lemma table_keys_distinct:
  "distinct (map fst BASE_ROLES)" "distinct (map fst STACK_LABELS)"
  "distinct (map fst RECOMMENDED_STACKS)" "distinct (map fst PROJECT_TYPE_SKILLS)"
  "distinct (map fst STACK_SKILLS)" "distinct (map fst DEPLOYMENT_SKILLS)"
  "distinct (map fst SKILL_METADATA)" "distinct (map fst OUTPUT_FILES)"
  "distinct (map fst PROJECT_TYPE_LABELS)" "distinct (map fst DEPLOYMENT_LABELS)"
  by code_simp+

lemma strIncludes_sublist: "strIncludes s kw = sublist kw s"
  by (induction s) (auto simp: sublist_Cons_right)

lemma whiteSpaces_nonempty: "w \<in> set whiteSpaces \<Longrightarrow> w \<noteq> []"
  by (auto simp: whiteSpaces_def)

lemma spaceAtStart_le: "spaceAtStart s \<le> length s"
proof (cases "find (\<lambda>w. prefix w s) whiteSpaces")
  case None
  then show ?thesis by (simp add: spaceAtStart_def)
next
  case (Some w)
  then have "prefix w s"
    by (auto simp: find_Some_iff)
  then show ?thesis
    using Some by (simp add: spaceAtStart_def prefix_length_le)
qed

lemma spaceAtEnd_le: "spaceAtEnd s \<le> length s"
proof (cases "find (\<lambda>w. suffix w s) whiteSpaces")
  case None
  then show ?thesis by (simp add: spaceAtEnd_def)
next
  case (Some w)
  then have "suffix w s"
    by (auto simp: find_Some_iff)
  then show ?thesis
    using Some by (simp add: spaceAtEnd_def suffix_length_le)
qed

lemma trimStart_done: "length s \<le> n \<Longrightarrow> spaceAtStart (trimStart n s) = 0"
proof (induction n arbitrary: s)
  case 0
  then show ?case
    using spaceAtStart_le [of s] by simp
next
  case (Suc n)
  show ?case
  proof (cases "spaceAtStart s = 0")
    case True
    then show ?thesis by simp
  next
    case False
    then have "length (drop (spaceAtStart s) s) \<le> n"
      using Suc.prems by simp
    from Suc.IH [OF this] False show ?thesis
      by simp
  qed
qed

lemma trimEnd_done: "length s \<le> n \<Longrightarrow> spaceAtEnd (trimEnd n s) = 0"
proof (induction n arbitrary: s)
  case 0
  then show ?case
    using spaceAtEnd_le [of s] by simp
next
  case (Suc n)
  show ?case
  proof (cases "spaceAtEnd s = 0")
    case True
    then show ?thesis by simp
  next
    case False
    then have "length (take (length s - spaceAtEnd s) s) \<le> n"
      using Suc.prems by simp
    from Suc.IH [OF this] False show ?thesis
      by simp
  qed
qed

lemma trim_no_space_at_end: "spaceAtEnd (trim s) = 0"
  by (simp add: trim_def Let_def trimEnd_done)

section \<open>Properties of the guardrail engine\<close>

lemma determineTier_le_3: "determineTier a \<le> 3"
  by (simp add: determineTier_def Let_def)

lemma length_TIER_INSTRUCTIONS: "length TIER_INSTRUCTIONS = 4"
  by (simp add: TIER_INSTRUCTIONS_def)





lemma take_eq_map_nth: "n \<le> length xs \<Longrightarrow> take n xs = map (\<lambda>i. xs ! i) [0..<n]"
  by (rule nth_equalityI) simp_all

lemma prefix_concat: "prefix xs ys \<Longrightarrow> prefix (concat xs) (concat ys)"
  by (auto simp: prefix_def)

lemma prefix_take_take: "m \<le> n \<Longrightarrow> prefix (take m xs) (take n xs)"
proof -
  assume "m \<le> n"
  then have "take m xs = take m (take n xs)"
    by (simp add: min_def)
  then show ?thesis
    by (metis take_is_prefix)
qed

text \<open>
  Claim C2. The instruction list of \<open>determineGuardrails\<close> is the concatenation, in
  order, of the fixed buckets \<open>0..tier\<close>, and \<open>byTier\<close> is the list of those buckets; so
  whenever the tier of one answers map is below the tier of another, the instructions of
  the first are a prefix of the instructions of the second.
\<close>

theorem determineGuardrails_additive:
  "tier (determineGuardrails a) = determineTier a
   \<and> instructions (determineGuardrails a) =
       concat (map (\<lambda>i. TIER_INSTRUCTIONS ! i) [0..<Suc (determineTier a)])
   \<and> byTier (determineGuardrails a) =
       map (\<lambda>i. TIER_INSTRUCTIONS ! i) [0..<Suc (determineTier a)]
   \<and> (determineTier a < determineTier b \<longrightarrow>
        prefix (instructions (determineGuardrails a)) (instructions (determineGuardrails b)))"
proof -
  have le: "Suc (determineTier a) \<le> length TIER_INSTRUCTIONS"
    using determineTier_le_3 [of a] by (simp add: length_TIER_INSTRUCTIONS)
  have tk: "take (Suc (determineTier a)) TIER_INSTRUCTIONS =
      map (\<lambda>i. TIER_INSTRUCTIONS ! i) [0..<Suc (determineTier a)]"
    using le by (rule take_eq_map_nth)
  have pre: "determineTier a < determineTier b \<longrightarrow>
      prefix (concat (take (Suc (determineTier a)) TIER_INSTRUCTIONS))
             (concat (take (Suc (determineTier b)) TIER_INSTRUCTIONS))"
    by (simp add: prefix_concat prefix_take_take)
  show ?thesis
    using tk pre by (simp add: determineGuardrails_def Let_def)
qed

theorem determineGuardrails_additive_witness:
  "determineTier Map.empty < determineTier [''hasPayments'' \<mapsto> JStr ''yes'']
   \<and> prefix (instructions (determineGuardrails Map.empty))
             (instructions (determineGuardrails [''hasPayments'' \<mapsto> JStr ''yes'']))"
proof -
  have lt: "determineTier Map.empty < determineTier [''hasPayments'' \<mapsto> JStr ''yes'']"
    by (simp add: determineTier_def countSecurityYes_def securityKeys_def getProp_def)
  then show ?thesis
    using determineGuardrails_additive
      [of Map.empty "[''hasPayments'' \<mapsto> JStr ''yes'']"]
    by blast
qed

lemma countSecurityYes_cong:
  assumes "\<And>k. k \<in> set securityKeys \<Longrightarrow>
             (getProp a k = JStr ''yes'') = (getProp b k = JStr ''yes'')"
  shows "countSecurityYes a = countSecurityYes b"
proof -
  have "filter (\<lambda>key. getProp a key = JStr ''yes'') securityKeys =
        filter (\<lambda>key. getProp b key = JStr ''yes'') securityKeys"
    using assms by (intro filter_cong) auto
  then show ?thesis
    by (simp add: countSecurityYes_def)
qed

text \<open>
  Claim C10. Only strict equality with the string \<open>"yes"\<close> counts: two answers maps that
  agree on which of the four security flags are exactly \<open>"yes"\<close> get the same tier and
  the same guardrail result, whatever the other values are (\<open>"no"\<close>, \<open>"Yes"\<close>, \<open>true\<close>, a
  number, or no value at all).
\<close>

theorem guardrails_only_exact_yes:
  assumes "\<And>k. k \<in> set securityKeys \<Longrightarrow>
             (getProp a k = JStr ''yes'') = (getProp b k = JStr ''yes'')"
  shows "determineTier a = determineTier b \<and> determineGuardrails a = determineGuardrails b"
proof -
  have c: "countSecurityYes a = countSecurityYes b"
    using assms by (rule countSecurityYes_cong)
  have p: "(getProp a ''hasPayments'' = JStr ''yes'') = (getProp b ''hasPayments'' = JStr ''yes'')"
    using assms by (simp add: securityKeys_def)
  have s: "(getProp a ''hasSensitiveData'' = JStr ''yes'') =
           (getProp b ''hasSensitiveData'' = JStr ''yes'')"
    using assms by (simp add: securityKeys_def)
  have t: "determineTier a = determineTier b"
    by (simp add: determineTier_def c p s)
  show ?thesis
    by (simp add: determineGuardrails_def t c)
qed

theorem guardrails_only_exact_yes_witness:
  "determineTier sloppyFlags = determineTier defaultedFlags
   \<and> determineGuardrails sloppyFlags = determineGuardrails defaultedFlags
   \<and> determineTier defaultedFlags = 1"
proof -
  have agree: "\<And>k. k \<in> set securityKeys \<Longrightarrow>
      (getProp sloppyFlags k = JStr ''yes'') = (getProp defaultedFlags k = JStr ''yes'')"
    by (auto simp: securityKeys_def getProp_def sloppyFlags_def defaultedFlags_def)
  have one: "determineTier defaultedFlags = 1"
    by (simp add: determineTier_def countSecurityYes_def securityKeys_def getProp_def
        defaultedFlags_def)
  show ?thesis
    using guardrails_only_exact_yes [of sloppyFlags defaultedFlags, OF agree] one
    by simp
qed

section \<open>Properties of the skill selector\<close>

lemma remdups_drop_later: "x \<in> set bs \<Longrightarrow> remdups (as @ x # bs) = remdups (as @ bs)"
  by (induction as) auto

lemma keepFirst_snoc_old: "x \<in> set ys \<Longrightarrow> keepFirst (ys @ x # xs) = keepFirst (ys @ xs)"
  using remdups_drop_later [of x "rev ys" "rev xs"] by (simp add: keepFirst_def)

lemma keepFirst_distinct: "distinct xs \<Longrightarrow> keepFirst xs = xs"
  by (simp add: keepFirst_def distinct_remdups_id)

lemma distinct_keepFirst: "distinct (keepFirst xs)"
  by (simp add: keepFirst_def)

lemma set_keepFirst: "set (keepFirst xs) = set xs"
  by (simp add: keepFirst_def)

lemma remdups_append_remdups: "remdups (as @ remdups bs) = remdups (as @ bs)"
  by (induction as) auto

lemma keepFirst_keepFirst_append: "keepFirst (keepFirst xs @ ys) = keepFirst (xs @ ys)"
  by (simp add: keepFirst_def remdups_append_remdups)

lemma fold_add:
  "distinct ys \<Longrightarrow> fold add xs (set ys, ys) = (set (ys @ xs), keepFirst (ys @ xs))"
proof (induction xs arbitrary: ys)
  case Nil
  then show ?case by (simp add: keepFirst_distinct)
next
  case (Cons x xs)
  show ?case
  proof (cases "x \<in> set ys")
    case True
    then have "add x (set ys, ys) = (set ys, ys)"
      by (simp add: add_def)
    with Cons True show ?thesis
      by (simp add: keepFirst_snoc_old insert_absorb)
  next
    case False
    then have step: "add x (set ys, ys) = (set (ys @ [x]), ys @ [x])"
      by (simp add: add_def)
    have "distinct (ys @ [x])"
      using Cons.prems False by simp
    from Cons.IH [OF this] step show ?thesis
      by simp
  qed
qed

lemma addStack_eq:
  "distinct ys \<Longrightarrow>
   addStack stack (set ys, ys) =
     (case stackCandidates stack of
        Inl e \<Rightarrow> Inl e
      | Inr cs \<Rightarrow> Inr (set (ys @ cs), keepFirst (ys @ cs)))"
proof (induction stack arbitrary: ys)
  case Nil
  then show ?case by (simp add: keepFirst_distinct)
next
  case (Cons tech rest)
  show ?case
  proof (cases "lookupList STACK_SKILLS tech")
    case (Inl e)
    then show ?thesis by simp
  next
    case (Inr techSkills)
    have f: "fold add techSkills (set ys, ys) =
        (set (keepFirst (ys @ techSkills)), keepFirst (ys @ techSkills))"
      using fold_add [OF Cons.prems, of techSkills] by (simp add: set_keepFirst)
    have k: "\<And>cs. keepFirst (keepFirst (ys @ techSkills) @ cs) = keepFirst (ys @ techSkills @ cs)"
      using keepFirst_keepFirst_append [of "ys @ techSkills"] by simp
    show ?thesis
      using Inr f Cons.IH [OF distinct_keepFirst, of "ys @ techSkills"] k
      by (auto simp: set_keepFirst split: sum.splits)
  qed
qed

lemma fold_add_keepFirst:
  "fold add xs (set (keepFirst zs), keepFirst zs) =
     (set (keepFirst (zs @ xs)), keepFirst (zs @ xs))"
  using fold_add [where ys = "keepFirst zs" and xs = xs]
  by (simp add: distinct_keepFirst keepFirst_keepFirst_append set_keepFirst)

lemma selectSkills_keepFirst:
  "selectSkills a t = (case selectionOrder a t of Inl e \<Rightarrow> Inl e | Inr xs \<Rightarrow> Inr (keepFirst xs))"
proof (cases "lookupList PROJECT_TYPE_SKILLS (getProp a ''projectType'')")
  case (Inl e)
  then show ?thesis by (simp add: selectSkills_def selectionOrder_def bindE_def)
next
  case core: (Inr coreSkills)
  have s1: "fold add coreSkills ({}, []) = (set (keepFirst coreSkills), keepFirst coreSkills)"
    using fold_add_keepFirst [where zs = "[]" and xs = coreSkills] by (simp add: keepFirst_def)
  show ?thesis
  proof (cases "bindE (resolveStack a) asArray")
    case (Inl e)
    then show ?thesis
      using core
      by (auto simp: selectSkills_def selectionOrder_def bindE_def split: sum.splits)
  next
    case (Inr stack)
    then obtain resolved where rs: "resolveStack a = Inr resolved"
      and stack: "asArray resolved = Inr stack"
      by (auto simp: bindE_def split: sum.splits)
    have s2: "addStack stack (set (keepFirst coreSkills), keepFirst coreSkills) =
        (case stackCandidates stack of
           Inl e \<Rightarrow> Inl e
         | Inr cs \<Rightarrow> Inr (set (keepFirst (coreSkills @ cs)), keepFirst (coreSkills @ cs)))"
      using addStack_eq [where ys = "keepFirst coreSkills" and stack = stack]
      by (simp add: distinct_keepFirst keepFirst_keepFirst_append set_keepFirst split: sum.splits)
    show ?thesis
    proof (cases "stackCandidates stack")
      case (Inl e)
      then show ?thesis
        using core rs stack s1 s2 by (simp add: selectSkills_def selectionOrder_def bindE_def)
    next
      case cands: (Inr cs)
      have s3: "fold add (guardrailNames a t) (set (keepFirst (coreSkills @ cs)), keepFirst (coreSkills @ cs))
          = (set (keepFirst (coreSkills @ cs @ guardrailNames a t)),
             keepFirst (coreSkills @ cs @ guardrailNames a t))"
        using fold_add_keepFirst [where zs = "coreSkills @ cs" and xs = "guardrailNames a t"]
        by simp
      show ?thesis
      proof (cases "selectFromDescription (getProp a ''projectDescription'')")
        case (Inl e)
        then show ?thesis
          using core rs stack cands s1 s2 s3
          by (simp add: selectSkills_def selectionOrder_def bindE_def)
      next
        case desc: (Inr ds)
        have s4: "fold add ds (set (keepFirst (coreSkills @ cs @ guardrailNames a t)),
             keepFirst (coreSkills @ cs @ guardrailNames a t))
          = (set (keepFirst (coreSkills @ cs @ guardrailNames a t @ ds)),
             keepFirst (coreSkills @ cs @ guardrailNames a t @ ds))"
          using fold_add_keepFirst [where zs = "coreSkills @ cs @ guardrailNames a t" and xs = ds]
          by simp
        show ?thesis
        proof (cases "lookupList DEPLOYMENT_SKILLS (getProp a ''deployment'')")
          case (Inl e)
          then show ?thesis
            using core rs stack cands desc s1 s2 s3 s4
            by (simp add: selectSkills_def selectionOrder_def bindE_def)
        next
          case dep: (Inr dps)
          have s5: "fold add dps (set (keepFirst (coreSkills @ cs @ guardrailNames a t @ ds)),
               keepFirst (coreSkills @ cs @ guardrailNames a t @ ds))
            = (set (keepFirst (coreSkills @ cs @ guardrailNames a t @ ds @ dps)),
               keepFirst (coreSkills @ cs @ guardrailNames a t @ ds @ dps))"
            using fold_add_keepFirst
              [where zs = "coreSkills @ cs @ guardrailNames a t @ ds" and xs = dps]
            by simp
          show ?thesis
            using core rs stack cands desc dep s1 s2 s3 s4 s5
            by (simp add: selectSkills_def selectionOrder_def bindE_def)
        qed
      qed
    qed
  qed
qed

lemma foldl_pushGroup:
  "foldl pushGroup g xs =
     \<lparr>coreGroup = coreGroup g @ filter (\<lambda>n. trackOf n = Core) xs,
      stackGroup = stackGroup g @ filter (\<lambda>n. trackOf n = Stack) xs,
      guardrailGroup = guardrailGroup g @ filter (\<lambda>n. trackOf n = Guardrail) xs,
      deploymentGroup = deploymentGroup g @ filter (\<lambda>n. trackOf n = Deployment) xs\<rparr>"
proof (induction xs arbitrary: g)
  case Nil
  show ?case by simp
next
  case (Cons x xs)
  have "foldl pushGroup g (x # xs) = foldl pushGroup (pushGroup g x) xs"
    by simp
  also have "\<dots> =
     \<lparr>coreGroup = coreGroup (pushGroup g x) @ filter (\<lambda>n. trackOf n = Core) xs,
      stackGroup = stackGroup (pushGroup g x) @ filter (\<lambda>n. trackOf n = Stack) xs,
      guardrailGroup = guardrailGroup (pushGroup g x) @ filter (\<lambda>n. trackOf n = Guardrail) xs,
      deploymentGroup = deploymentGroup (pushGroup g x) @ filter (\<lambda>n. trackOf n = Deployment) xs\<rparr>"
    by (rule Cons.IH)
  also have "\<dots> =
     \<lparr>coreGroup = coreGroup g @ filter (\<lambda>n. trackOf n = Core) (x # xs),
      stackGroup = stackGroup g @ filter (\<lambda>n. trackOf n = Stack) (x # xs),
      guardrailGroup = guardrailGroup g @ filter (\<lambda>n. trackOf n = Guardrail) (x # xs),
      deploymentGroup = deploymentGroup g @ filter (\<lambda>n. trackOf n = Deployment) (x # xs)\<rparr>"
    by (cases "trackOf x") (simp_all add: pushGroup_def)
  finally show ?case .
qed

lemma groupByTrack_filter:
  "groupByTrack xs =
     \<lparr>coreGroup = filter (\<lambda>n. trackOf n = Core) xs,
      stackGroup = filter (\<lambda>n. trackOf n = Stack) xs,
      guardrailGroup = filter (\<lambda>n. trackOf n = Guardrail) xs,
      deploymentGroup = filter (\<lambda>n. trackOf n = Deployment) xs\<rparr>"
  by (simp add: groupByTrack_def foldl_pushGroup)

lemma trackOf_unmapped: "map_of SKILL_METADATA n = None \<Longrightarrow> trackOf n = Core"
  by (simp add: trackOf_def lookupProp_def toPropertyKey_def bindE_def)

lemma mset_four_filters:
  "mset (filter (\<lambda>n. trackOf n = Core) xs) + mset (filter (\<lambda>n. trackOf n = Stack) xs)
   + mset (filter (\<lambda>n. trackOf n = Guardrail) xs) + mset (filter (\<lambda>n. trackOf n = Deployment) xs)
   = mset xs"
proof (induction xs)
  case Nil
  show ?case by simp
next
  case (Cons x xs)
  then show ?case by (cases "trackOf x") simp_all
qed

text \<open>
  Claim C3. Whenever \<open>selectSkills\<close> returns a flat list, the list has no duplicate (it
  is the selection order with every repeated occurrence but the first removed), and the
  grouped view of \<open>selectSkillsByTrack\<close> partitions exactly that list: each group is the
  flat list filtered by track, so it keeps the flat list's relative order; the groups
  together hold every identifier of the flat list exactly once and nothing else; and an
  identifier absent from the metadata table is in the \<open>core\<close> group.
\<close>

theorem selectSkills_dedup_partition:
  assumes "selectSkills a t = Inr flat"
  shows "distinct flat
    \<and> (\<exists>order. selectionOrder a t = Inr order \<and> flat = keepFirst order)
    \<and> (\<exists>g. selectSkillsByTrack a t = Inr g
          \<and> coreGroup g = filter (\<lambda>n. trackOf n = Core) flat
          \<and> stackGroup g = filter (\<lambda>n. trackOf n = Stack) flat
          \<and> guardrailGroup g = filter (\<lambda>n. trackOf n = Guardrail) flat
          \<and> deploymentGroup g = filter (\<lambda>n. trackOf n = Deployment) flat
          \<and> mset (coreGroup g) + mset (stackGroup g) + mset (guardrailGroup g)
              + mset (deploymentGroup g) = mset flat
          \<and> (\<forall>n \<in> set flat. count (mset (coreGroup g) + mset (stackGroup g)
                + mset (guardrailGroup g) + mset (deploymentGroup g)) n = 1)
          \<and> (\<forall>n \<in> set flat. map_of SKILL_METADATA n = None \<longrightarrow> n \<in> set (coreGroup g)))"
proof -
  from assms obtain order where o: "selectionOrder a t = Inr order" and f: "flat = keepFirst order"
    by (auto simp: selectSkills_keepFirst split: sum.splits)
  define g where "g = groupByTrack flat"
  have d: "distinct flat"
    using f by (simp add: distinct_keepFirst)
  have sel: "selectSkillsByTrack a t = Inr g"
    using assms by (simp add: selectSkillsByTrack_def bindE_def g_def)
  have g1: "coreGroup g = filter (\<lambda>n. trackOf n = Core) flat"
    and g2: "stackGroup g = filter (\<lambda>n. trackOf n = Stack) flat"
    and g3: "guardrailGroup g = filter (\<lambda>n. trackOf n = Guardrail) flat"
    and g4: "deploymentGroup g = filter (\<lambda>n. trackOf n = Deployment) flat"
    by (simp_all add: g_def groupByTrack_filter)
  have m: "mset (coreGroup g) + mset (stackGroup g) + mset (guardrailGroup g)
      + mset (deploymentGroup g) = mset flat"
    unfolding g1 g2 g3 g4 by (rule mset_four_filters)
  have c: "\<forall>n \<in> set flat. count (mset (coreGroup g) + mset (stackGroup g)
      + mset (guardrailGroup g) + mset (deploymentGroup g)) n = 1"
    unfolding m using d by (simp add: distinct_count_atmost_1)
  have u: "\<forall>n \<in> set flat. map_of SKILL_METADATA n = None \<longrightarrow> n \<in> set (coreGroup g)"
    unfolding g1 by (simp add: trackOf_unmapped)
  show ?thesis
    using d o f sel g1 g2 g3 g4 m c u by blast
qed

lemma dedupExample_skills: "selectSkills dedupExample 2 = Inr dedupExampleSkills"
  by code_simp

theorem selectSkills_dedup_partition_witness:
  "selectSkills dedupExample 2 = Inr dedupExampleSkills
   \<and> distinct dedupExampleSkills
   \<and> (\<exists>g. selectSkillsByTrack dedupExample 2 = Inr g
         \<and> mset (coreGroup g) + mset (stackGroup g) + mset (guardrailGroup g)
             + mset (deploymentGroup g) = mset dedupExampleSkills)"
  using selectSkills_dedup_partition [OF dedupExample_skills] dedupExample_skills
  by blast

lemma lookup_tableNames:
  "lookupList tbl key = Inr xs \<Longrightarrow> set xs \<subseteq> set (tableNames tbl)"
  by (auto simp: lookupList_def asArray_def orElse_def lookupProp_def bindE_def tableNames_def
      split: sum.splits option.splits if_splits jsprop.splits dest!: map_of_SomeD)

lemma stackCandidates_tableNames:
  "stackCandidates stack = Inr cs \<Longrightarrow> set cs \<subseteq> set (tableNames STACK_SKILLS)"
proof (induction stack arbitrary: cs)
  case Nil
  then show ?case by simp
next
  case (Cons tech rest)
  then show ?case
    using lookup_tableNames [of STACK_SKILLS tech]
    by (auto split: sum.splits)
qed

lemma selectFromDescription_names:
  "selectFromDescription d = Inr ds \<Longrightarrow> set ds \<subseteq> set (map snd DESCRIPTION_KEYWORDS)"
  by (auto simp: selectFromDescription_def Let_def split: if_splits jsval.splits)

lemma set_selectSkills:
  assumes "selectSkills a t = Inr flat"
  shows "\<exists>coreSkills stackSkills descSkills deploySkills.
      set flat = set coreSkills \<union> set stackSkills \<union> set (guardrailNames a t)
                 \<union> set descSkills \<union> set deploySkills
    \<and> set coreSkills \<subseteq> set (tableNames PROJECT_TYPE_SKILLS)
    \<and> set stackSkills \<subseteq> set (tableNames STACK_SKILLS)
    \<and> selectFromDescription (getProp a ''projectDescription'') = Inr descSkills
    \<and> set deploySkills \<subseteq> set (tableNames DEPLOYMENT_SKILLS)"
proof -
  from assms obtain order where o: "selectionOrder a t = Inr order" and f: "flat = keepFirst order"
    by (auto simp: selectSkills_keepFirst split: sum.splits)
  from o obtain coreSkills stack stackSkills descSkills deploySkills where
    c: "lookupList PROJECT_TYPE_SKILLS (getProp a ''projectType'') = Inr coreSkills"
    and s: "stackCandidates stack = Inr stackSkills"
    and d: "selectFromDescription (getProp a ''projectDescription'') = Inr descSkills"
    and p: "lookupList DEPLOYMENT_SKILLS (getProp a ''deployment'') = Inr deploySkills"
    and e: "order = coreSkills @ stackSkills @ guardrailNames a t @ descSkills @ deploySkills"
    by (auto simp: selectionOrder_def bindE_def split: sum.splits)
  have "set flat = set coreSkills \<union> set stackSkills \<union> set (guardrailNames a t)
                 \<union> set descSkills \<union> set deploySkills"
    using f e by (auto simp: set_keepFirst)
  then show ?thesis
    using lookup_tableNames [OF c] stackCandidates_tableNames [OF s] d lookup_tableNames [OF p]
    by blast
qed

lemma guardrail_names_not_in_tables:
  "n \<in> set [''validating-user-input'', ''implementing-auth-patterns'', ''managing-cors-policy'',
             ''managing-secrets-and-env'', ''handling-payment-security'', ''data-encryption-patterns'']
   \<Longrightarrow> n \<notin> set (tableNames PROJECT_TYPE_SKILLS) \<and> n \<notin> set (tableNames STACK_SKILLS)
       \<and> n \<notin> set (tableNames DEPLOYMENT_SKILLS)"
  by (auto simp: tableNames_def PROJECT_TYPE_SKILLS_def STACK_SKILLS_def DEPLOYMENT_SKILLS_def)

lemma guardrail_only_names:
  "n \<in> set [''validating-user-input'', ''managing-cors-policy'', ''handling-payment-security'']
   \<Longrightarrow> n \<notin> set (map snd DESCRIPTION_KEYWORDS)"
  by (auto simp: DESCRIPTION_KEYWORDS_def)

lemma guardrail_name_in_flat:
  assumes "selectSkills a t = Inr flat"
    and "n \<in> set [''validating-user-input'', ''implementing-auth-patterns'',
             ''managing-cors-policy'', ''managing-secrets-and-env'',
             ''handling-payment-security'', ''data-encryption-patterns'']"
  shows "(n \<in> set flat) = (n \<in> set (guardrailNames a t) \<or> descriptionSelects a n)"
proof -
  from set_selectSkills [OF assms(1)] obtain coreSkills stackSkills descSkills deploySkills where
    f: "set flat = set coreSkills \<union> set stackSkills \<union> set (guardrailNames a t)
                 \<union> set descSkills \<union> set deploySkills"
    and c: "set coreSkills \<subseteq> set (tableNames PROJECT_TYPE_SKILLS)"
    and s: "set stackSkills \<subseteq> set (tableNames STACK_SKILLS)"
    and d: "selectFromDescription (getProp a ''projectDescription'') = Inr descSkills"
    and p: "set deploySkills \<subseteq> set (tableNames DEPLOYMENT_SKILLS)"
    by blast
  have ds: "descriptionSelects a n = (n \<in> set descSkills)"
    by (simp add: descriptionSelects_def d)
  show ?thesis
    using guardrail_names_not_in_tables [OF assms(2)] f c s p ds by blast
qed

lemma guardrailNames_mem:
  "(''validating-user-input'' \<in> set (guardrailNames a t)) = (t \<ge> 1)"
  "(''implementing-auth-patterns'' \<in> set (guardrailNames a t)) =
     (t \<ge> 2 \<and> getProp a ''hasAuth'' = JStr ''yes'')"
  "(''managing-cors-policy'' \<in> set (guardrailNames a t)) =
     (t \<ge> 2 \<and> getProp a ''projectType'' \<in> {JStr ''web-app'', JStr ''api-backend'', JStr ''mobile-app''})"
  "(''managing-secrets-and-env'' \<in> set (guardrailNames a t)) = (t \<ge> 3)"
  "(''handling-payment-security'' \<in> set (guardrailNames a t)) =
     (t \<ge> 3 \<and> getProp a ''hasPayments'' = JStr ''yes'')"
  "(''data-encryption-patterns'' \<in> set (guardrailNames a t)) =
     (t \<ge> 3 \<and> getProp a ''hasSensitiveData'' = JStr ''yes'')"
  by (simp_all add: guardrailNames_def)

text \<open>
  Claim C4. The guardrail track of \<open>selectSkills\<close> adds
  \<open>validating-user-input\<close> exactly at tier \<open>\<ge> 1\<close>; at tier \<open>\<ge> 2\<close>
  \<open>implementing-auth-patterns\<close> exactly if \<open>hasAuth\<close> is \<open>"yes"\<close> and
  \<open>managing-cors-policy\<close> exactly if \<open>projectType\<close> is \<open>web-app\<close>, \<open>api-backend\<close> or
  \<open>mobile-app\<close>; at tier \<open>\<ge> 3\<close> \<open>managing-secrets-and-env\<close> always,
  \<open>handling-payment-security\<close> exactly if \<open>hasPayments\<close> is \<open>"yes"\<close> and
  \<open>data-encryption-patterns\<close> exactly if \<open>hasSensitiveData\<close> is \<open>"yes"\<close>; and it adds
  nothing else. Everything the track adds is in the returned list, and no project-type,
  stack or deployment table holds one of the six names, so in the returned list they
  come from this track or, for three of them, from a keyword of the description.
\<close>

theorem guardrail_track_conditions:
  "(''validating-user-input'' \<in> set (guardrailNames a t)) = (t \<ge> 1)
   \<and> (''implementing-auth-patterns'' \<in> set (guardrailNames a t)) =
       (t \<ge> 2 \<and> getProp a ''hasAuth'' = JStr ''yes'')
   \<and> (''managing-cors-policy'' \<in> set (guardrailNames a t)) =
       (t \<ge> 2 \<and> getProp a ''projectType'' \<in> {JStr ''web-app'', JStr ''api-backend'', JStr ''mobile-app''})
   \<and> (''managing-secrets-and-env'' \<in> set (guardrailNames a t)) = (t \<ge> 3)
   \<and> (''handling-payment-security'' \<in> set (guardrailNames a t)) =
       (t \<ge> 3 \<and> getProp a ''hasPayments'' = JStr ''yes'')
   \<and> (''data-encryption-patterns'' \<in> set (guardrailNames a t)) =
       (t \<ge> 3 \<and> getProp a ''hasSensitiveData'' = JStr ''yes'')
   \<and> set (guardrailNames a t) \<subseteq>
         {''validating-user-input'', ''implementing-auth-patterns'', ''managing-cors-policy'',
          ''managing-secrets-and-env'', ''handling-payment-security'', ''data-encryption-patterns''}
   \<and> (selectSkills a t = Inr flat \<longrightarrow>
         set (guardrailNames a t) \<subseteq> set flat
       \<and> (''validating-user-input'' \<in> set flat) = (t \<ge> 1)
       \<and> (''implementing-auth-patterns'' \<in> set flat) =
           (t \<ge> 2 \<and> getProp a ''hasAuth'' = JStr ''yes''
            \<or> descriptionSelects a ''implementing-auth-patterns'')
       \<and> (''managing-cors-policy'' \<in> set flat) =
           (t \<ge> 2 \<and> getProp a ''projectType'' \<in> {JStr ''web-app'', JStr ''api-backend'', JStr ''mobile-app''})
       \<and> (''managing-secrets-and-env'' \<in> set flat) =
           (t \<ge> 3 \<or> descriptionSelects a ''managing-secrets-and-env'')
       \<and> (''handling-payment-security'' \<in> set flat) =
           (t \<ge> 3 \<and> getProp a ''hasPayments'' = JStr ''yes'')
       \<and> (''data-encryption-patterns'' \<in> set flat) =
           (t \<ge> 3 \<and> getProp a ''hasSensitiveData'' = JStr ''yes''
            \<or> descriptionSelects a ''data-encryption-patterns''))"
proof -
  have sub: "set (guardrailNames a t) \<subseteq>
         {''validating-user-input'', ''implementing-auth-patterns'', ''managing-cors-policy'',
          ''managing-secrets-and-env'', ''handling-payment-security'', ''data-encryption-patterns''}"
    by (auto simp: guardrailNames_def split: if_splits)
  have flat: "selectSkills a t = Inr flat \<longrightarrow>
         set (guardrailNames a t) \<subseteq> set flat
       \<and> (''validating-user-input'' \<in> set flat) = (t \<ge> 1)
       \<and> (''implementing-auth-patterns'' \<in> set flat) =
           (t \<ge> 2 \<and> getProp a ''hasAuth'' = JStr ''yes''
            \<or> descriptionSelects a ''implementing-auth-patterns'')
       \<and> (''managing-cors-policy'' \<in> set flat) =
           (t \<ge> 2 \<and> getProp a ''projectType'' \<in> {JStr ''web-app'', JStr ''api-backend'', JStr ''mobile-app''})
       \<and> (''managing-secrets-and-env'' \<in> set flat) =
           (t \<ge> 3 \<or> descriptionSelects a ''managing-secrets-and-env'')
       \<and> (''handling-payment-security'' \<in> set flat) =
           (t \<ge> 3 \<and> getProp a ''hasPayments'' = JStr ''yes'')
       \<and> (''data-encryption-patterns'' \<in> set flat) =
           (t \<ge> 3 \<and> getProp a ''hasSensitiveData'' = JStr ''yes''
            \<or> descriptionSelects a ''data-encryption-patterns'')"
  proof
    assume sel: "selectSkills a t = Inr flat"
    have incl: "set (guardrailNames a t) \<subseteq> set flat"
      using set_selectSkills [OF sel] by blast
    have nd: "\<not> descriptionSelects a ''validating-user-input''"
      "\<not> descriptionSelects a ''managing-cors-policy''"
      "\<not> descriptionSelects a ''handling-payment-security''"
      using selectFromDescription_names [of "getProp a ''projectDescription''"]
        guardrail_only_names [of "''validating-user-input''"]
        guardrail_only_names [of "''managing-cors-policy''"]
        guardrail_only_names [of "''handling-payment-security''"]
      by (auto simp: descriptionSelects_def split: sum.splits)
    have m1: "(''validating-user-input'' \<in> set flat) = (t \<ge> 1)"
      using guardrail_name_in_flat [OF sel, of "''validating-user-input''"] nd
      by (simp add: guardrailNames_mem)
    have m2: "(''implementing-auth-patterns'' \<in> set flat) =
           (t \<ge> 2 \<and> getProp a ''hasAuth'' = JStr ''yes''
            \<or> descriptionSelects a ''implementing-auth-patterns'')"
      using guardrail_name_in_flat [OF sel, of "''implementing-auth-patterns''"]
      by (simp add: guardrailNames_mem)
    have m3: "(''managing-cors-policy'' \<in> set flat) =
           (t \<ge> 2 \<and> getProp a ''projectType'' \<in> {JStr ''web-app'', JStr ''api-backend'', JStr ''mobile-app''})"
      using guardrail_name_in_flat [OF sel, of "''managing-cors-policy''"] nd
      by (simp add: guardrailNames_mem)
    have m4: "(''managing-secrets-and-env'' \<in> set flat) =
           (t \<ge> 3 \<or> descriptionSelects a ''managing-secrets-and-env'')"
      using guardrail_name_in_flat [OF sel, of "''managing-secrets-and-env''"]
      by (simp add: guardrailNames_mem)
    have m5: "(''handling-payment-security'' \<in> set flat) =
           (t \<ge> 3 \<and> getProp a ''hasPayments'' = JStr ''yes'')"
      using guardrail_name_in_flat [OF sel, of "''handling-payment-security''"] nd
      by (simp add: guardrailNames_mem)
    have m6: "(''data-encryption-patterns'' \<in> set flat) =
           (t \<ge> 3 \<and> getProp a ''hasSensitiveData'' = JStr ''yes''
            \<or> descriptionSelects a ''data-encryption-patterns'')"
      using guardrail_name_in_flat [OF sel, of "''data-encryption-patterns''"]
      by (simp add: guardrailNames_mem)
    show "set (guardrailNames a t) \<subseteq> set flat
       \<and> (''validating-user-input'' \<in> set flat) = (t \<ge> 1)
       \<and> (''implementing-auth-patterns'' \<in> set flat) =
           (t \<ge> 2 \<and> getProp a ''hasAuth'' = JStr ''yes''
            \<or> descriptionSelects a ''implementing-auth-patterns'')
       \<and> (''managing-cors-policy'' \<in> set flat) =
           (t \<ge> 2 \<and> getProp a ''projectType'' \<in> {JStr ''web-app'', JStr ''api-backend'', JStr ''mobile-app''})
       \<and> (''managing-secrets-and-env'' \<in> set flat) =
           (t \<ge> 3 \<or> descriptionSelects a ''managing-secrets-and-env'')
       \<and> (''handling-payment-security'' \<in> set flat) =
           (t \<ge> 3 \<and> getProp a ''hasPayments'' = JStr ''yes'')
       \<and> (''data-encryption-patterns'' \<in> set flat) =
           (t \<ge> 3 \<and> getProp a ''hasSensitiveData'' = JStr ''yes''
            \<or> descriptionSelects a ''data-encryption-patterns'')"
      using incl m1 m2 m3 m4 m5 m6 by blast
  qed
  show ?thesis
    using guardrailNames_mem [of a t] sub flat by blast
qed

lemma paymentsExample_skills: "selectSkills paymentsExample 3 = Inr paymentsExampleSkills"
  by code_simp

theorem guardrail_track_conditions_witness:
  "selectSkills paymentsExample 3 = Inr paymentsExampleSkills
   \<and> set (guardrailNames paymentsExample 3) \<subseteq> set paymentsExampleSkills
   \<and> ''managing-secrets-and-env'' \<in> set (guardrailNames paymentsExample 3)
   \<and> ''handling-payment-security'' \<in> set paymentsExampleSkills
   \<and> ''implementing-auth-patterns'' \<notin> set (guardrailNames paymentsExample 3)
   \<and> ''data-encryption-patterns'' \<notin> set (guardrailNames paymentsExample 3)"
proof -
  have p: "getProp paymentsExample ''hasPayments'' = JStr ''yes''"
    and a: "getProp paymentsExample ''hasAuth'' \<noteq> JStr ''yes''"
    and s: "getProp paymentsExample ''hasSensitiveData'' \<noteq> JStr ''yes''"
    by (simp_all add: getProp_def paymentsExample_def)
  show ?thesis
    using guardrail_track_conditions [of paymentsExample 3 paymentsExampleSkills]
      paymentsExample_skills p a s
    by simp
qed

section \<open>The stack resolver\<close>

lemma resolveStack_choose:
  "getProp a ''stackApproach'' \<noteq> JStr ''recommend'' \<Longrightarrow>
   resolveStack a = Inr (Own (case getProp a ''stackTech'' of JArr xs \<Rightarrow> xs | _ \<Rightarrow> []))"
  by (simp add: resolveStack_def split: jsval.splits)

lemma resolveStack_recommend:
  "getProp a ''stackApproach'' = JStr ''recommend'' \<Longrightarrow>
   toPropertyKey (getProp a ''projectType'') = Inr k \<Longrightarrow>
   k \<notin> set objectPrototypeNames \<Longrightarrow>
   resolveStack a =
     Inr (Own (case map_of RECOMMENDED_STACKS k of
                 Some curated \<Rightarrow> map JStr curated
               | None \<Rightarrow> [JStr ''nodejs'']))"
  by (simp add: resolveStack_def lookupProp_def orElse_def bindE_def split: option.splits)

text \<open>
  Claim C5 at the project type \<open>"toString"\<close> in \<open>recommend\<close> mode: the type is not a key of
  the curated table, and \<open>resolveStack\<close> returns the inherited \<open>Object.prototype.toString\<close>
  instead of the default stack \<open>['nodejs']\<close>.
\<close>

theorem resolveStack_inherited_not_default:
  "getProp inheritedProjectType ''stackApproach'' = JStr ''recommend''
   \<and> map_of RECOMMENDED_STACKS ''toString'' = None
   \<and> resolveStack inheritedProjectType = Inr (Inherited ''toString'')
   \<and> resolveStack inheritedProjectType \<noteq> Inr (Own [JStr ''nodejs''])"
proof -
  have a: "getProp inheritedProjectType ''stackApproach'' = JStr ''recommend''"
    by (simp add: getProp_def inheritedProjectType_def)
  have b: "map_of RECOMMENDED_STACKS ''toString'' = None"
    by (simp add: RECOMMENDED_STACKS_def)
  have c: "resolveStack inheritedProjectType = Inr (Inherited ''toString'')"
    by code_simp
  show ?thesis
    using a b c by simp
qed

section \<open>The scenario\<close>

lemma scenario_run:
  "(case runDecisionTree scenario of
      Inl e \<Rightarrow> False
    | Inr r \<Rightarrow> guardrailTier r = 1 \<and> skills r = scenarioSkills
        \<and> (case buildSteps scenario r of
              Inl e \<Rightarrow> False
            | Inr steps \<Rightarrow> buildSecurityStep scenario (guardrailTier r) \<in> set steps))"
  by code_simp

text \<open>
  Claim C7. For \<open>projectType = "api-backend"\<close>, \<open>stackApproach = "choose"\<close>,
  \<open>stackTech = ["nodejs", "postgres"]\<close>, \<open>hasAuth = "yes"\<close>, the other three flags
  \<open>"no"\<close> and \<open>deployment = "aws"\<close>: the tier is 1; the flat skill list is the stated list
  of nine identifiers (so it starts with it); and the build sequence contains the
  security-hardening step, whose text mentions neither CORS nor encryption.
\<close>

theorem scenario_api_backend:
  "determineTier scenario = 1
   \<and> selectSkills scenario (determineTier scenario) = Inr scenarioSkills
   \<and> (\<exists>r steps. runDecisionTree scenario = Inr r
         \<and> guardrailTier r = 1
         \<and> skills r = scenarioSkills
         \<and> prefix scenarioSkills (skills r)
         \<and> buildSteps scenario r = Inr steps
         \<and> buildSecurityStep scenario (guardrailTier r) \<in> set steps
         \<and> buildSecurityStep scenario (guardrailTier r) = scenarioSecurityStep)
   \<and> \<not> strIncludes scenarioSecurityStep ''CORS''
   \<and> \<not> strIncludes (toLowerCase scenarioSecurityStep) ''cors''
   \<and> \<not> strIncludes (toLowerCase scenarioSecurityStep) ''encrypt''"
proof -
  have t: "determineTier scenario = 1"
    by code_simp
  have s: "selectSkills scenario 1 = Inr scenarioSkills"
    by code_simp
  have sec: "buildSecurityStep scenario 1 = scenarioSecurityStep"
    by code_simp
  have n1: "\<not> strIncludes scenarioSecurityStep ''CORS''"
    by code_simp
  have n2: "\<not> strIncludes (toLowerCase scenarioSecurityStep) ''cors''"
    by code_simp
  have n3: "\<not> strIncludes (toLowerCase scenarioSecurityStep) ''encrypt''"
    by code_simp
  have r: "\<exists>r steps. runDecisionTree scenario = Inr r
         \<and> guardrailTier r = 1
         \<and> skills r = scenarioSkills
         \<and> prefix scenarioSkills (skills r)
         \<and> buildSteps scenario r = Inr steps
         \<and> buildSecurityStep scenario (guardrailTier r) \<in> set steps
         \<and> buildSecurityStep scenario (guardrailTier r) = scenarioSecurityStep"
    using scenario_run sec by (auto split: sum.splits)
  show ?thesis
    using t s r n1 n2 n3 by simp
qed

section \<open>Properties of the build sequence\<close>

lemma deployStepTexts_eq:
  "set deployStepTexts =
    {''Connect the repository to Vercel; configure environment variables in the Vercel dashboard; verify the Preview deployment for the main branch before enabling production'',
     ''Define infrastructure as code (CDK or Terraform); deploy to a staging environment first; verify health checks pass before routing production traffic'',
     ''Build and push the container image to Artifact Registry; deploy to Cloud Run with the correct service account and Secret Manager bindings; verify the health endpoint before going live'',
     ''Configure the deployment pipeline; deploy to a staging environment first and verify all critical paths before production''}"
  by (simp add: deployStepTexts_def buildDeployStep_def)

lemma buildDeployStep_text: "buildDeployStep d stack \<in> set deployStepTexts"
  by (simp add: deployStepTexts_eq) (simp add: buildDeployStep_def)

lemma scaffold_not_deploy: "buildScaffoldStep p stack d \<notin> set deployStepTexts"
  by (simp add: deployStepTexts_eq) (simp add: buildScaffoldStep_def Let_def)

lemma structure_not_deploy: "buildStructureStep p stack \<notin> set deployStepTexts"
  by (simp add: deployStepTexts_eq) (simp add: buildStructureStep_def Let_def)

lemma dataLayer_not_deploy: "buildDataLayerStep a stack \<notin> set deployStepTexts"
  by (simp add: deployStepTexts_eq) (simp add: buildDataLayerStep_def Let_def)

lemma middle_not_deploy: "s \<in> set (buildMiddleSteps p a stack) \<Longrightarrow> s \<notin> set deployStepTexts"
  by (simp add: deployStepTexts_eq) (auto simp: buildMiddleSteps_def Let_def split: if_splits)

lemma security_not_deploy: "buildSecurityStep a t \<notin> set deployStepTexts"
  by (simp add: deployStepTexts_eq) (simp add: buildSecurityStep_def Let_def)

lemma testing_not_deploy: "testingStep \<notin> set deployStepTexts"
  by (simp add: deployStepTexts_eq) (simp add: testingStep_def)

lemma buildDeployStep_eq: "buildDeployStep d stack = deployStepText d"
  by (simp add: buildDeployStep_def deployStepText_def)

lemma hasDeployStep_append: "hasDeployStep (xs @ ys) = (hasDeployStep xs \<or> hasDeployStep ys)"
  by (simp add: hasDeployStep_def)

lemma hasDeployStep_iff: "hasDeployStep xs = (\<exists>s \<in> set xs. s \<in> set deployStepTexts)"
  by (simp add: hasDeployStep_def list_ex_iff)

text \<open>
  Claim C9, as the code has it. The build sequence contains a deployment step if and only
  if the deployment answer is truthy (answered, and not the empty string) and is not
  \<open>"local-only"\<close>. The step is then the last one, right after the testing step; its
  text is the dedicated one for \<open>vercel\<close>, \<open>aws\<close> or \<open>gcp\<close> and the generic pipeline text
  for any other target. Otherwise the testing step is the last one.
\<close>

theorem deployment_step_iff_answered:
  assumes "buildSteps a r = Inr steps"
  shows "hasDeployStep steps =
           (truthy (getProp a ''deployment'') \<and> getProp a ''deployment'' \<noteq> JStr ''local-only'')
    \<and> (truthy (getProp a ''deployment'') \<and> getProp a ''deployment'' \<noteq> JStr ''local-only'' \<longrightarrow>
          (\<exists>pre. steps = pre @ [testingStep, deployStepText (getProp a ''deployment'')]
                 \<and> \<not> hasDeployStep pre))
    \<and> (\<not> (truthy (getProp a ''deployment'') \<and> getProp a ''deployment'' \<noteq> JStr ''local-only'') \<longrightarrow>
          last steps = testingStep)"
proof -
  from assms obtain resolved stack where rs: "resolveStack a = Inr resolved"
    and st: "asArray resolved = Inr stack"
    by (auto simp: buildSteps_def bindE_def split: sum.splits)
  define pre where "pre =
      [buildScaffoldStep (getProp a ''projectType'') stack (getProp a ''deployment'')]
      @ [buildStructureStep (getProp a ''projectType'') stack]
      @ (if list_ex (\<lambda>t. t \<in> set [JStr ''postgres'', JStr ''mysql'', JStr ''mongodb'']) stack
            \<or> JStr ''prisma'' \<in> set stack \<or> JStr ''supabase'' \<in> set stack
         then [buildDataLayerStep a stack] else [])
      @ buildMiddleSteps (getProp a ''projectType'') a stack
      @ (if guardrailTier r \<ge> 1 then [buildSecurityStep a (guardrailTier r)] else [])"
  define dep where "dep =
      (if truthy (getProp a ''deployment'') \<and> getProp a ''deployment'' \<noteq> JStr ''local-only''
       then [buildDeployStep (getProp a ''deployment'') stack] else [])"
  have steps: "steps = pre @ [testingStep] @ dep"
    using assms rs st by (simp add: buildSteps_def bindE_def Let_def pre_def dep_def)
  have npre: "\<not> hasDeployStep pre"
    using scaffold_not_deploy structure_not_deploy dataLayer_not_deploy middle_not_deploy
      security_not_deploy
    by (auto simp: hasDeployStep_iff pre_def)
  have ntest: "\<not> hasDeployStep [testingStep]"
    using testing_not_deploy by (simp add: hasDeployStep_iff)
  have hdep: "hasDeployStep dep =
      (truthy (getProp a ''deployment'') \<and> getProp a ''deployment'' \<noteq> JStr ''local-only'')"
    using buildDeployStep_text by (simp add: hasDeployStep_iff dep_def)
  have one: "hasDeployStep steps =
      (truthy (getProp a ''deployment'') \<and> getProp a ''deployment'' \<noteq> JStr ''local-only'')"
    unfolding steps hasDeployStep_append using npre ntest hdep by blast
  have two: "truthy (getProp a ''deployment'') \<and> getProp a ''deployment'' \<noteq> JStr ''local-only'' \<longrightarrow>
      (\<exists>pre. steps = pre @ [testingStep, deployStepText (getProp a ''deployment'')]
             \<and> \<not> hasDeployStep pre)"
    using npre by (auto simp: steps dep_def buildDeployStep_eq)
  have three: "\<not> (truthy (getProp a ''deployment'') \<and> getProp a ''deployment'' \<noteq> JStr ''local-only'') \<longrightarrow>
      last steps = testingStep"
    by (auto simp: steps dep_def)
  show ?thesis
    using one two three by blast
qed

lemma notSure_steps: "buildSteps notSureDeployment baselineResult = Inr notSureSteps"
  by code_simp

theorem deployment_step_iff_answered_witness:
  "buildSteps notSureDeployment baselineResult = Inr notSureSteps
   \<and> hasDeployStep notSureSteps
   \<and> last notSureSteps =
       ''Configure the deployment pipeline; deploy to a staging environment first and verify all critical paths before production''"
proof -
  have d: "getProp notSureDeployment ''deployment'' = JStr ''not-sure''"
    by (simp add: getProp_def notSureDeployment_def)
  have l: "last notSureSteps =
      ''Configure the deployment pipeline; deploy to a staging environment first and verify all critical paths before production''"
    by (simp add: notSureSteps_def)
  show ?thesis
    using deployment_step_iff_answered [OF notSure_steps] notSure_steps d l
    by simp
qed

text \<open>
  Claim C9 as stated fails when the deployment question has no answer: the answer is not
  \<open>"local-only"\<close>, and the sequence still ends with the testing step.
\<close>

theorem deployment_unanswered_counterexample:
  "getProp unansweredDeployment ''deployment'' \<noteq> JStr ''local-only''
   \<and> bindE (runDecisionTree unansweredDeployment) (buildSteps unansweredDeployment)
       = Inr unansweredSteps
   \<and> \<not> hasDeployStep unansweredSteps"
proof -
  have a: "getProp unansweredDeployment ''deployment'' \<noteq> JStr ''local-only''"
    by (simp add: getProp_def unansweredDeployment_def)
  have b: "bindE (runDecisionTree unansweredDeployment) (buildSteps unansweredDeployment)
       = Inr unansweredSteps"
    by code_simp
  have c: "\<not> hasDeployStep unansweredSteps"
    by code_simp
  show ?thesis
    using a b c by blast
qed

section \<open>Override precedence in the assembled document\<close>

lemma assembleParts_fixed_sections:
  "assembleParts today a r ai = Inr ps \<Longrightarrow>
   length ps = 8 \<and> sectionTechStack a r = Inr (ps ! 3) \<and> ps ! 5 = sectionGuardrails r
   \<and> ps ! 6 = sectionSkillPacks r"
  by (auto simp: assembleParts_def bindE_def Let_def split: sum.splits)

lemma assembleParts_no_override:
  "assembleParts today a r None = Inr ps \<Longrightarrow> ps ! 1 = sectionRole r"
  by (auto simp: assembleParts_def bindE_def Let_def override_def split: sum.splits)

lemma override_roleOnly:
  "txt \<noteq> [] \<Longrightarrow> override (Some (roleOnly txt)) aiRole = Some txt"
  "override (Some (roleOnly txt)) aiContext = None"
  "override (Some (roleOnly txt)) aiDirectives = None"
  "override (Some (roleOnly txt)) aiBuildSeq = None"
  "override None f = None"
  by (simp_all add: override_def roleOnly_def)

text \<open>
  Claim C6. With an override record in which only \<open>role\<close> is set, to a non-empty string,
  \<open>assembleConfig\<close> raises exactly when it raises without overrides; otherwise the parts
  of the document are those of the template output, except for the header comment (which
  gains the AI marker) and the Role section, which is the override text under the
  \<open>## Role\<close> heading. The Tech Stack, Security Guardrails and Skill Packs sections are
  the deterministic ones under every override record.
\<close>

theorem override_role_only:
  assumes "txt \<noteq> []"
  shows "(case assembleParts today a r None of
            Inl e \<Rightarrow> assembleParts today a r (Some (roleOnly txt)) = Inl e
          | Inr ps \<Rightarrow>
              (\<exists>hdr. assembleParts today a r (Some (roleOnly txt)) =
                 Inr [hdr, ''## Role'' @ nl @ nl @ txt, ps ! 2, ps ! 3, ps ! 4,
                      sectionGuardrails r, sectionSkillPacks r, ps ! 7])
              \<and> length ps = 8
              \<and> ps ! 1 = sectionRole r
              \<and> sectionTechStack a r = Inr (ps ! 3)
              \<and> ps ! 5 = sectionGuardrails r
              \<and> ps ! 6 = sectionSkillPacks r)
     \<and> (\<forall>ai ps. assembleParts today a r ai = Inr ps \<longrightarrow>
           length ps = 8 \<and> sectionTechStack a r = Inr (ps ! 3)
           \<and> ps ! 5 = sectionGuardrails r \<and> ps ! 6 = sectionSkillPacks r)
     \<and> assembleConfig today a r (Some (roleOnly txt)) =
         (case assembleParts today a r (Some (roleOnly txt)) of
            Inl e \<Rightarrow> Inl e
          | Inr ps \<Rightarrow> Inr (join divider ps))"
proof -
  have one: "(case assembleParts today a r None of
            Inl e \<Rightarrow> assembleParts today a r (Some (roleOnly txt)) = Inl e
          | Inr ps \<Rightarrow>
              (\<exists>hdr. assembleParts today a r (Some (roleOnly txt)) =
                 Inr [hdr, ''## Role'' @ nl @ nl @ txt, ps ! 2, ps ! 3, ps ! 4,
                      sectionGuardrails r, sectionSkillPacks r, ps ! 7])
              \<and> length ps = 8
              \<and> ps ! 1 = sectionRole r
              \<and> sectionTechStack a r = Inr (ps ! 3)
              \<and> ps ! 5 = sectionGuardrails r
              \<and> ps ! 6 = sectionSkillPacks r)"
    using assms
    by (auto simp: assembleParts_def bindE_def Let_def override_roleOnly split: sum.splits)
  have two: "\<forall>ai ps. assembleParts today a r ai = Inr ps \<longrightarrow>
           length ps = 8 \<and> sectionTechStack a r = Inr (ps ! 3)
           \<and> ps ! 5 = sectionGuardrails r \<and> ps ! 6 = sectionSkillPacks r"
    using assembleParts_fixed_sections by blast
  have three: "assembleConfig today a r (Some (roleOnly txt)) =
         (case assembleParts today a r (Some (roleOnly txt)) of
            Inl e \<Rightarrow> Inl e
          | Inr ps \<Rightarrow> Inr (join divider ps))"
    by (simp add: assembleConfig_def bindE_def)
  show ?thesis
    using one two three by blast
qed

lemma baseline_parts:
  "(case assembleParts ''2026-01-01'' Map.empty baselineResult None of
      Inl e \<Rightarrow> False
    | Inr ps \<Rightarrow> True)"
  by code_simp

theorem override_role_only_witness:
  "''You are a terse reviewer.'' \<noteq> []
   \<and> (\<exists>hdr ctx tech dirs bseq.
        assembleParts ''2026-01-01'' Map.empty baselineResult
          (Some (roleOnly ''You are a terse reviewer.'')) =
        Inr [hdr, ''## Role'' @ nl @ nl @ ''You are a terse reviewer.'', ctx, tech, dirs,
             sectionGuardrails baselineResult, sectionSkillPacks baselineResult, bseq]
        \<and> sectionTechStack Map.empty baselineResult = Inr tech)"
proof -
  have h: "''You are a terse reviewer.'' \<noteq> []"
    by simp
  show ?thesis
    using override_role_only [OF h, of "''2026-01-01''" Map.empty baselineResult] baseline_parts
    by (auto split: sum.splits)
qed

section \<open>Totality of the derivation\<close>

lemma plainKey_key:
  "plainKey v \<Longrightarrow> \<exists>k. toPropertyKey v = Inr k \<and> k \<notin> set objectPrototypeNames"
  by (auto simp: plainKey_def split: sum.splits)

lemma lookupProp_plain:
  "toPropertyKey v = Inr k \<Longrightarrow> k \<notin> set objectPrototypeNames \<Longrightarrow>
   lookupProp tbl v = Inr (map_option Own (map_of tbl k))"
  by (simp add: lookupProp_def bindE_def split: option.splits)

lemma lookupList_plain:
  "toPropertyKey v = Inr k \<Longrightarrow> k \<notin> set objectPrototypeNames \<Longrightarrow>
   lookupList tbl v = Inr (case map_of tbl k of Some xs \<Rightarrow> xs | None \<Rightarrow> [])"
  by (simp add: lookupList_def lookupProp_plain bindE_def orElse_def asArray_def
      split: option.splits)

lemma plainKey_JStr: "plainKey (JStr t) = (t \<notin> set objectPrototypeNames)"
  by (simp add: plainKey_def toPropertyKey_def)

lemma curated_plain:
  "map_of RECOMMENDED_STACKS k = Some xs \<Longrightarrow> list_all plainKey (map JStr xs)"
  by (auto simp: RECOMMENDED_STACKS_def objectPrototypeNames_def plainKey_JStr split: if_splits)

lemma resolveStack_own:
  assumes "plainKeys a"
  shows "\<exists>stack. resolveStack a = Inr (Own stack) \<and> list_all plainKey stack"
proof (cases "getProp a ''stackApproach'' = JStr ''recommend''")
  case True
  from assms obtain k where k: "toPropertyKey (getProp a ''projectType'') = Inr k"
    and n: "k \<notin> set objectPrototypeNames"
    using plainKey_key by (auto simp: plainKeys_def)
  have d: "list_all plainKey [JStr ''nodejs'']"
    by (simp add: plainKey_JStr objectPrototypeNames_def)
  show ?thesis
    using resolveStack_recommend [OF True k n] curated_plain d
    by (auto split: option.splits)
next
  case False
  show ?thesis
    using resolveStack_choose [OF False] assms False
    by (auto simp: plainKeys_def split: jsval.splits)
qed

lemma stackCandidates_ok:
  "list_all plainKey stack \<Longrightarrow> \<exists>cs. stackCandidates stack = Inr cs"
proof (induction stack)
  case Nil
  show ?case by simp
next
  case (Cons tech rest)
  then obtain cs where cs: "stackCandidates rest = Inr cs"
    by auto
  from Cons.prems obtain k where k: "toPropertyKey tech = Inr k"
    and n: "k \<notin> set objectPrototypeNames"
    using plainKey_key by auto
  from lookupList_plain [OF k n, of STACK_SKILLS] cs show ?case
    by simp
qed

lemma stackLabels_ok:
  "list_all plainKey stack \<Longrightarrow> \<exists>labels. stackLabels stack = Inr labels"
proof (induction stack)
  case Nil
  show ?case by simp
next
  case (Cons t ts)
  then obtain labels where ls: "stackLabels ts = Inr labels"
    by auto
  from Cons.prems obtain k where k: "toPropertyKey t = Inr k"
    and n: "k \<notin> set objectPrototypeNames"
    using plainKey_key by auto
  from lookupProp_plain [OF k n, of STACK_LABELS] ls show ?case
    by simp
qed

lemma selectFromDescription_ok:
  "descriptionIsText a \<Longrightarrow> \<exists>ds. selectFromDescription (getProp a ''projectDescription'') = Inr ds"
  by (auto simp: descriptionIsText_def selectFromDescription_def Let_def split: jsval.splits)

lemma selectSkills_ok:
  assumes "descriptionIsText a" and "plainKeys a"
  shows "\<exists>flat. selectSkills a t = Inr flat"
proof -
  from assms(2) obtain kp where kp: "toPropertyKey (getProp a ''projectType'') = Inr kp"
    and np: "kp \<notin> set objectPrototypeNames"
    using plainKey_key by (auto simp: plainKeys_def)
  from assms(2) obtain kd where kd: "toPropertyKey (getProp a ''deployment'') = Inr kd"
    and nd: "kd \<notin> set objectPrototypeNames"
    using plainKey_key by (auto simp: plainKeys_def)
  from resolveStack_own [OF assms(2)] obtain stack where
    s: "resolveStack a = Inr (Own stack)" and sl: "list_all plainKey stack"
    by blast
  from stackCandidates_ok [OF sl] obtain cs where cs: "stackCandidates stack = Inr cs"
    by blast
  from selectFromDescription_ok [OF assms(1)] obtain ds where
    ds: "selectFromDescription (getProp a ''projectDescription'') = Inr ds"
    by blast
  have "\<exists>order. selectionOrder a t = Inr order"
    using lookupList_plain [OF kp np, of PROJECT_TYPE_SKILLS]
      lookupList_plain [OF kd nd, of DEPLOYMENT_SKILLS] s cs ds
    by (simp add: selectionOrder_def bindE_def asArray_def)
  then show ?thesis
    by (auto simp: selectSkills_keepFirst)
qed

lemma buildRole_ok:
  assumes "descriptionIsText a" and "plainKeys a"
  shows "\<exists>sentence. buildRole a = Inr sentence"
proof -
  from assms(2) obtain kp where kp: "toPropertyKey (getProp a ''projectType'') = Inr kp"
    and np: "kp \<notin> set objectPrototypeNames"
    using plainKey_key by (auto simp: plainKeys_def)
  from resolveStack_own [OF assms(2)] obtain stack where
    s: "resolveStack a = Inr (Own stack)" and sl: "list_all plainKey stack"
    by blast
  from stackLabels_ok [OF sl] obtain labels where ls: "stackLabels stack = Inr labels"
    by blast
  show ?thesis
    using assms(1) s ls lookupProp_plain [OF kp np, of BASE_ROLES]
    by (auto simp: buildRole_def bindE_def asArray_def Let_def descriptionIsText_def
        split: jsval.splits)
qed

lemma buildSteps_ok:
  assumes "plainKeys a"
  shows "\<exists>steps. buildSteps a r = Inr steps \<and> steps \<noteq> []
           \<and> (getProp a ''projectType'' \<notin> set (map JStr [''web-app'', ''api-backend'', ''cli-tool'',
                  ''data-pipeline'', ''discord-slack-bot'', ''mobile-app''])
                \<longrightarrow> hd steps = genericScaffoldStep)"
proof -
  from resolveStack_own [OF assms] obtain stack where s: "resolveStack a = Inr (Own stack)"
    by blast
  have g: "getProp a ''projectType'' \<notin> set (map JStr [''web-app'', ''api-backend'', ''cli-tool'',
                  ''data-pipeline'', ''discord-slack-bot'', ''mobile-app''])
       \<longrightarrow> buildScaffoldStep (getProp a ''projectType'') stack (getProp a ''deployment'')
            = genericScaffoldStep"
    by (simp add: buildScaffoldStep_def genericScaffoldStep_def Let_def)
  show ?thesis
    using s g by (simp add: buildSteps_def bindE_def asArray_def Let_def)
qed

lemma runDecisionTree_ok:
  assumes "descriptionIsText a" and "plainKeys a"
  shows "\<exists>res. runDecisionTree a = Inr res
     \<and> guardrailTier res = determineTier a
     \<and> (unknownIn BASE_ROLES (getProp a ''projectType'') \<longrightarrow>
          baseRole (roleComponents res) = Own ''Senior Software Engineer'')
     \<and> (unknownIn OUTPUT_FILES (getProp a ''llmTarget'') \<longrightarrow>
          outputFile res = Own ''PROJECT_CONFIG.md'')
     \<and> (getProp a ''stackApproach'' \<noteq> JStr ''recommend''
          \<and> (\<forall>xs. getProp a ''stackTech'' \<noteq> JArr xs) \<longrightarrow> resolvedStack res = [])
     \<and> (getProp a ''stackApproach'' = JStr ''recommend''
          \<and> unknownIn RECOMMENDED_STACKS (getProp a ''projectType'') \<longrightarrow>
          resolvedStack res = [JStr ''nodejs''])"
proof -
  from assms(2) obtain kp where kp: "toPropertyKey (getProp a ''projectType'') = Inr kp"
    and np: "kp \<notin> set objectPrototypeNames"
    using plainKey_key by (auto simp: plainKeys_def)
  from assms(2) obtain kl where kl: "toPropertyKey (getProp a ''llmTarget'') = Inr kl"
    and nl: "kl \<notin> set objectPrototypeNames"
    using plainKey_key by (auto simp: plainKeys_def)
  from resolveStack_own [OF assms(2)] obtain stack where
    s: "resolveStack a = Inr (Own stack)" and sl: "list_all plainKey stack"
    by blast
  from stackLabels_ok [OF sl] obtain labels where ls: "stackLabels stack = Inr labels"
    by blast
  from buildRole_ok [OF assms] obtain sentence where r: "buildRole a = Inr sentence"
    by blast
  from selectSkills_ok [OF assms] obtain flat where
    f: "selectSkills a (tier (determineGuardrails a)) = Inr flat"
    by blast
  have rc: "buildRoleComponents a =
      Inr \<lparr> baseRole = orElse (map_option Own (map_of BASE_ROLES kp))
                               (Own ''Senior Software Engineer''),
            stackSpecs = labels, secSpecs = buildSecuritySpecs a, full = sentence \<rparr>"
    using s ls r lookupProp_plain [OF kp np, of BASE_ROLES]
    by (simp add: buildRoleComponents_def bindE_def asArray_def)
  have bt: "selectSkillsByTrack a (tier (determineGuardrails a)) = Inr (groupByTrack flat)"
    using f by (simp add: selectSkillsByTrack_def bindE_def)
  have base: "unknownIn BASE_ROLES (getProp a ''projectType'') \<longrightarrow>
      orElse (map_option Own (map_of BASE_ROLES kp)) (Own ''Senior Software Engineer'')
        = Own ''Senior Software Engineer''"
    using kp by (simp add: unknownIn_def orElse_def)
  have out: "unknownIn OUTPUT_FILES (getProp a ''llmTarget'') \<longrightarrow>
      orElse (map_option Own (map_of OUTPUT_FILES kl)) (Own ''PROJECT_CONFIG.md'')
        = Own ''PROJECT_CONFIG.md''"
    using kl by (simp add: unknownIn_def orElse_def)
  have e: "getProp a ''stackApproach'' \<noteq> JStr ''recommend''
      \<and> (\<forall>xs. getProp a ''stackTech'' \<noteq> JArr xs) \<longrightarrow> stack = []"
    using s by (auto simp: resolveStack_def split: jsval.splits)
  have n: "getProp a ''stackApproach'' = JStr ''recommend''
      \<and> unknownIn RECOMMENDED_STACKS (getProp a ''projectType'') \<longrightarrow>
      stack = [JStr ''nodejs'']"
    using s resolveStack_recommend [OF _ kp np] kp
    by (auto simp: unknownIn_def)
  have t: "tier (determineGuardrails a) = determineTier a"
    by (simp add: determineGuardrails_def Let_def)
  show ?thesis
    using s r f rc bt base out e n t lookupProp_plain [OF kl nl, of OUTPUT_FILES]
    by (simp add: runDecisionTree_def bindE_def asArray_def Let_def)
qed

lemma selectSkills_nothing_known:
  assumes "plainKey (getProp a ''projectType'')"
    and "unknownIn PROJECT_TYPE_SKILLS (getProp a ''projectType'')"
    and "resolveStack a = Inr (Own [])"
    and "\<not> truthy (getProp a ''projectDescription'')"
    and "plainKey (getProp a ''deployment'')"
    and "unknownIn DEPLOYMENT_SKILLS (getProp a ''deployment'')"
  shows "selectSkills a 0 = Inr []"
proof -
  from assms(1) obtain kp where kp: "toPropertyKey (getProp a ''projectType'') = Inr kp"
    and np: "kp \<notin> set objectPrototypeNames"
    using plainKey_key by auto
  from assms(5) obtain kd where kd: "toPropertyKey (getProp a ''deployment'') = Inr kd"
    and nd: "kd \<notin> set objectPrototypeNames"
    using plainKey_key by auto
  have "selectionOrder a 0 = Inr []"
    using lookupList_plain [OF kp np, of PROJECT_TYPE_SKILLS]
      lookupList_plain [OF kd nd, of DEPLOYMENT_SKILLS] assms(2,3,4,6) kp kd
    by (simp add: selectionOrder_def bindE_def asArray_def selectFromDescription_def
        guardrailNames_def unknownIn_def)
  then show ?thesis
    by (simp add: selectSkills_keepFirst keepFirst_def)
qed

text \<open>
  Claim C8, as the code has it. \<open>determineGuardrails\<close> never raises. For every answers
  map whose description is absent, \<open>null\<close> or a string, and whose lookup keys (the
  project type, the deployment target, the LLM target and the entries of a chosen
  \<open>stackTech\<close>) convert to property keys that are not names inherited from
  \<open>Object.prototype\<close>, neither do \<open>resolveStack\<close>, \<open>buildRole\<close>, \<open>selectSkills\<close>, the
  build-sequence generator and \<open>runDecisionTree\<close>; and an unknown or missing value
  degrades to its fallback: the generic role, the generic scaffold step, the generic
  file name, the empty or default stack, and the empty skill list.
\<close>

theorem core_total_on_text_answers:
  assumes "descriptionIsText a" and "plainKeys a"
  shows "(\<exists>stack. resolveStack a = Inr (Own stack))
     \<and> (\<exists>sentence. buildRole a = Inr sentence)
     \<and> (\<exists>flat. selectSkills a t = Inr flat)
     \<and> (\<exists>steps. buildSteps a r = Inr steps \<and> steps \<noteq> []
           \<and> (getProp a ''projectType'' \<notin> set (map JStr [''web-app'', ''api-backend'', ''cli-tool'',
                  ''data-pipeline'', ''discord-slack-bot'', ''mobile-app''])
                \<longrightarrow> hd steps = genericScaffoldStep))
     \<and> (\<exists>numbered. buildSequence a r = Inr numbered)
     \<and> (\<exists>res. runDecisionTree a = Inr res
           \<and> guardrailTier res = determineTier a
           \<and> (unknownIn BASE_ROLES (getProp a ''projectType'') \<longrightarrow>
                baseRole (roleComponents res) = Own ''Senior Software Engineer'')
           \<and> (unknownIn OUTPUT_FILES (getProp a ''llmTarget'') \<longrightarrow>
                outputFile res = Own ''PROJECT_CONFIG.md'')
           \<and> (getProp a ''stackApproach'' \<noteq> JStr ''recommend''
                \<and> (\<forall>xs. getProp a ''stackTech'' \<noteq> JArr xs) \<longrightarrow> resolvedStack res = [])
           \<and> (getProp a ''stackApproach'' = JStr ''recommend''
                \<and> unknownIn RECOMMENDED_STACKS (getProp a ''projectType'') \<longrightarrow>
                resolvedStack res = [JStr ''nodejs'']))
     \<and> (unknownIn PROJECT_TYPE_SKILLS (getProp a ''projectType'')
          \<and> resolveStack a = Inr (Own [])
          \<and> \<not> truthy (getProp a ''projectDescription'')
          \<and> unknownIn DEPLOYMENT_SKILLS (getProp a ''deployment'') \<longrightarrow>
          selectSkills a 0 = Inr [])"
proof -
  have p: "plainKey (getProp a ''projectType'')"
    and d: "plainKey (getProp a ''deployment'')"
    using assms(2) by (simp_all add: plainKeys_def)
  have one: "\<exists>stack. resolveStack a = Inr (Own stack)"
    using resolveStack_own [OF assms(2)] by blast
  from buildSteps_ok [OF assms(2), of r] obtain steps where
    st: "buildSteps a r = Inr steps \<and> steps \<noteq> []
           \<and> (getProp a ''projectType'' \<notin> set (map JStr [''web-app'', ''api-backend'', ''cli-tool'',
                  ''data-pipeline'', ''discord-slack-bot'', ''mobile-app''])
                \<longrightarrow> hd steps = genericScaffoldStep)"
    by blast
  then have sq: "\<exists>numbered. buildSequence a r = Inr numbered"
    by (simp add: buildSequence_def bindE_def)
  have last: "unknownIn PROJECT_TYPE_SKILLS (getProp a ''projectType'')
          \<and> resolveStack a = Inr (Own [])
          \<and> \<not> truthy (getProp a ''projectDescription'')
          \<and> unknownIn DEPLOYMENT_SKILLS (getProp a ''deployment'') \<longrightarrow>
          selectSkills a 0 = Inr []"
    using selectSkills_nothing_known [OF p _ _ _ d] by blast
  show ?thesis
    using one buildRole_ok [OF assms] selectSkills_ok [OF assms, of t] st sq
      runDecisionTree_ok [OF assms] last
    by blast
qed

lemma baseline_run: "runDecisionTree Map.empty = Inr baselineResult"
  by code_simp

lemma odd_hypotheses: "descriptionIsText oddAnswers \<and> plainKeys oddAnswers"
  by code_simp

lemma odd_unknown:
  "unknownIn BASE_ROLES (getProp oddAnswers ''projectType'')
   \<and> unknownIn OUTPUT_FILES (getProp oddAnswers ''llmTarget'')
   \<and> getProp oddAnswers ''projectType'' \<notin> set (map JStr [''web-app'', ''api-backend'',
        ''cli-tool'', ''data-pipeline'', ''discord-slack-bot'', ''mobile-app''])"
  by code_simp

lemma odd_skills: "selectSkills oddAnswers 0 = Inr oddSkills"
  by code_simp

lemma odd_role: "buildRole oddAnswers = Inr oddRole"
  by code_simp

theorem core_total_on_text_answers_witness:
  "descriptionIsText oddAnswers \<and> plainKeys oddAnswers
   \<and> selectSkills oddAnswers 0 = Inr oddSkills
   \<and> buildRole oddAnswers = Inr oddRole
   \<and> (\<exists>res. runDecisionTree oddAnswers = Inr res
         \<and> baseRole (roleComponents res) = Own ''Senior Software Engineer''
         \<and> outputFile res = Own ''PROJECT_CONFIG.md'')
   \<and> (\<exists>steps. buildSteps oddAnswers baselineResult = Inr steps
         \<and> hd steps = genericScaffoldStep)
   \<and> descriptionIsText Map.empty \<and> plainKeys Map.empty
   \<and> runDecisionTree Map.empty = Inr baselineResult
   \<and> selectSkills Map.empty 0 = Inr []"
proof -
  have h1: "descriptionIsText oddAnswers" and h2: "plainKeys oddAnswers"
    using odd_hypotheses by simp_all
  have e1: "descriptionIsText Map.empty"
    by (simp add: descriptionIsText_def getProp_def)
  have e2: "plainKeys Map.empty"
    by code_simp
  have e: "unknownIn PROJECT_TYPE_SKILLS (getProp Map.empty ''projectType'')
      \<and> resolveStack Map.empty = Inr (Own [])
      \<and> \<not> truthy (getProp Map.empty ''projectDescription'')
      \<and> unknownIn DEPLOYMENT_SKILLS (getProp Map.empty ''deployment'')"
    by code_simp
  note odd = core_total_on_text_answers [OF h1 h2, of 0 baselineResult]
  note blank = core_total_on_text_answers [OF e1 e2, of 0 baselineResult]
  have u1: "unknownIn BASE_ROLES (getProp oddAnswers ''projectType'')"
    and u2: "unknownIn OUTPUT_FILES (getProp oddAnswers ''llmTarget'')"
    and u3: "getProp oddAnswers ''projectType'' \<notin> set (map JStr [''web-app'', ''api-backend'',
        ''cli-tool'', ''data-pipeline'', ''discord-slack-bot'', ''mobile-app''])"
    using odd_unknown by blast+
  from odd [THEN conjunct2, THEN conjunct2, THEN conjunct2, THEN conjunct2, THEN conjunct2,
      THEN conjunct1]
  obtain res where res: "runDecisionTree oddAnswers = Inr res"
    and "unknownIn BASE_ROLES (getProp oddAnswers ''projectType'') \<longrightarrow>
          baseRole (roleComponents res) = Own ''Senior Software Engineer''"
    and "unknownIn OUTPUT_FILES (getProp oddAnswers ''llmTarget'') \<longrightarrow>
          outputFile res = Own ''PROJECT_CONFIG.md''"
    by (elim exE conjE)
  with u1 u2 have run: "\<exists>res. runDecisionTree oddAnswers = Inr res
         \<and> baseRole (roleComponents res) = Own ''Senior Software Engineer''
         \<and> outputFile res = Own ''PROJECT_CONFIG.md''"
    by (intro exI [of _ res] conjI) (rule res, erule mp, assumption, erule mp, assumption)
  from odd [THEN conjunct2, THEN conjunct2, THEN conjunct2, THEN conjunct1]
  obtain steps where st: "buildSteps oddAnswers baselineResult = Inr steps"
    and "getProp oddAnswers ''projectType'' \<notin> set (map JStr [''web-app'', ''api-backend'',
        ''cli-tool'', ''data-pipeline'', ''discord-slack-bot'', ''mobile-app''])
          \<longrightarrow> hd steps = genericScaffoldStep"
    by (elim exE conjE)
  with u3 have seq: "\<exists>steps. buildSteps oddAnswers baselineResult = Inr steps
         \<and> hd steps = genericScaffoldStep"
    by (intro exI [of _ steps] conjI) (rule st, erule mp, assumption)
  have none: "selectSkills Map.empty 0 = Inr []"
    by (rule mp [OF blank [THEN conjunct2, THEN conjunct2, THEN conjunct2, THEN conjunct2,
      THEN conjunct2, THEN conjunct2] e])
  show ?thesis
    by (intro conjI h1 h2 odd_skills odd_role run seq e1 e2 baseline_run none)
qed

text \<open>
  Claim C8 as stated fails on a description that is a number: \<open>toLowerCase\<close> and \<open>trim\<close>
  are not methods of a number, so the skill selector, the role builder and the whole
  decision tree raise a \<open>TypeError\<close>.
\<close>

theorem numeric_description_counterexample:
  "selectSkills numericDescription 0 = Inl TypeError
   \<and> buildRole numericDescription = Inl TypeError
   \<and> runDecisionTree numericDescription = Inl TypeError"
proof -
  have a: "selectSkills numericDescription 0 = Inl TypeError"
    by code_simp
  have b: "buildRole numericDescription = Inl TypeError"
    by code_simp
  have c: "runDecisionTree numericDescription = Inl TypeError"
    by code_simp
  show ?thesis
    using a b c by blast
qed

text \<open>
  The same happens when a lookup key cannot be converted to a string: a project type
  that is an object with an own \<open>toString\<close> property raises in the first table lookup.
\<close>

lemma object_key_raises:
  "selectSkills objectProjectType 0 = Inl TypeError"
  "buildRole objectProjectType = Inl TypeError"
  "runDecisionTree objectProjectType = Inl TypeError"
  by code_simp+

end
